theory Spec2Isabelle
  imports Main "HOL-Library.Word" "HOL-Library.AList"
begin

section \<open>TinyHook: Python syscall hooks for the user-mode emulator\<close>

text \<open>
  A shallow embedding of \<^verbatim>\<open>linux-user/tinyhook.c\<close> and \<^verbatim>\<open>tinyhook.h\<close>.
  The C globals, the host memory, the error indicator of the runtime and the output on
  \<^verbatim>\<open>stderr\<close> become one record that the functions take and return; a function in which
  the process may exit says so in its result. The embedded Python runtime is represented by the
  values it hands to the C code and by parameters: how a callable answers a call, what
  running the script does, and what the runtime and the file system answer during
  initialisation. The guest address translation is a parameter as well.
  Reference counts and allocation failures of the runtime are not represented, except
  for the allocations whose failure \<^verbatim>\<open>tinyhook_init\<close> tests and the references that
  \<^verbatim>\<open>tinyhook_shutdown\<close> drops.
\<close>

subsection \<open>Python values as the C code inspects them\<close>

datatype pyerr =
    TypeError
  | ValueError
  | MemoryError
  | OverflowError
  | KeyError
  | UnicodeDecodeError
  | SystemError
  | SystemExit int
  | ScriptError string

datatype pyobj =
    PyNone
  | PyBool bool
  | PyLong int
  | PyBytes "8 word list"
  | PyUnicode "nat list"
  | PyTuple "pyobj list"
  | PyList "pyobj list"
  | PyDict "(pyobj \<times> pyobj) list"
  | PyFunction nat
  | PyModule string

text \<open>A text object holds code points; \<open>py_str\<close> builds one from an ASCII literal.\<close>

definition py_str :: "string \<Rightarrow> pyobj" where
  "py_str cs = PyUnicode (map of_char cs)"

text \<open>\<^verbatim>\<open>PyLong_Check\<close> accepts \<^verbatim>\<open>int\<close> and its subclass \<^verbatim>\<open>bool\<close>.\<close>

fun PyLong_Check :: "pyobj \<Rightarrow> bool" where
  "PyLong_Check (PyLong _) = True"
| "PyLong_Check (PyBool _) = True"
| "PyLong_Check _ = False"

fun int_of :: "pyobj \<Rightarrow> int" where
  "int_of (PyLong v) = v"
| "int_of (PyBool b) = (if b then 1 else 0)"
| "int_of _ = 0"

fun PyDict_Check :: "pyobj \<Rightarrow> bool" where
  "PyDict_Check (PyDict _) = True"
| "PyDict_Check _ = False"

fun PyTuple_Check :: "pyobj \<Rightarrow> bool" where
  "PyTuple_Check (PyTuple _) = True"
| "PyTuple_Check _ = False"

fun PyCallable_Check :: "pyobj \<Rightarrow> bool" where
  "PyCallable_Check (PyFunction _) = True"
| "PyCallable_Check _ = False"

text \<open>The range of a \<^verbatim>\<open>long long\<close> and of a 64-bit \<^verbatim>\<open>long\<close>.\<close>

definition in_long_long :: "int \<Rightarrow> bool" where
  "in_long_long v = (- (2 ^ 63) \<le> v \<and> v < 2 ^ 63)"

text \<open>\<^verbatim>\<open>PyDict_GetItemString\<close>: the value stored under a text key, errors suppressed.\<close>

fun PyDict_GetItemString :: "pyobj \<Rightarrow> string \<Rightarrow> pyobj option" where
  "PyDict_GetItemString (PyDict kvs) k = map_of kvs (py_str k)"
| "PyDict_GetItemString _ k = None"

fun PyTuple_Size :: "pyobj \<Rightarrow> int" where
  "PyTuple_Size (PyTuple xs) = int (length xs)"
| "PyTuple_Size _ = - 1"

fun PyTuple_GetItem :: "pyobj \<Rightarrow> nat \<Rightarrow> pyobj option" where
  "PyTuple_GetItem (PyTuple xs) i = (if i < length xs then Some (xs ! i) else None)"
| "PyTuple_GetItem _ i = None"

subsection \<open>The header: actions and the hook result\<close>

datatype TinyHookAction = TINYHOOK_CONTINUE | TINYHOOK_SKIP

definition TINYHOOK_ACTION_CONTINUE :: int where
  "TINYHOOK_ACTION_CONTINUE = 0"

definition TINYHOOK_ACTION_SKIP :: int where
  "TINYHOOK_ACTION_SKIP = 1"

text \<open>
  \<^verbatim>\<open>abi_long\<close> is declared outside these files; the record takes it as a type parameter,
  instantiated below with \<open>'w word\<close> (32 or 64 bits on the supported targets).
  The array \<^verbatim>\<open>args[8]\<close> is a list.
\<close>

record 'abi_long TinyHookResult =
  action :: TinyHookAction
  args :: "'abi_long list"
  ret :: 'abi_long

subsection \<open>The globals, the host memory and what the process emits\<close>

text \<open>
  A line written to \<^verbatim>\<open>stderr\<close>, by its format string:
  \<^item> \<open>Log_register_failed\<close>: "tinyhook: failed to register module"
  \<^item> \<open>Log_initialize_failed\<close>: "tinyhook: failed to initialize Python"
  \<^item> \<open>Log_dict_failed\<close>: "tinyhook: failed to create hook dictionaries"
  \<^item> \<open>Log_import_failed\<close>: "tinyhook: failed to import tinyhook module"
  \<^item> \<open>Log_open_failed path\<close>: "tinyhook: failed to open script '%s': %s"
  \<^item> \<open>Log_script_error path\<close>: "tinyhook: error executing script '%s':"
  \<^item> \<open>Log_loaded path\<close>: "tinyhook: loaded script '%s'"
  \<^item> \<open>Log_pre_hook_error num\<close>: "tinyhook: error in pre-syscall hook for syscall %d:"
  \<^item> \<open>Log_post_hook_error num\<close>: "tinyhook: error in post-syscall hook for syscall %d:"
  \<^item> \<open>Traceback e\<close>: the traceback that \<^verbatim>\<open>PyErr_Print\<close> writes for the error \<open>e\<close>.
\<close>

datatype log_line =
    Log_register_failed
  | Log_initialize_failed
  | Log_dict_failed
  | Log_import_failed
  | Log_open_failed string
  | Log_script_error string
  | Log_loaded string
  | Log_pre_hook_error int
  | Log_post_hook_error int
  | Traceback pyerr

text \<open>What \<^verbatim>\<open>tinyhook_shutdown\<close> gives back: a reference it drops, or the runtime.\<close>

datatype release = DECREF_pre_hooks | DECREF_post_hooks | DECREF_module | Finalize_runtime

text \<open>
  The hook dictionaries are only ever keyed by \<^verbatim>\<open>PyLong_FromLong(syscall_num)\<close>, so a
  dictionary is an association list from the number to the callback; \<open>None\<close> is the
  \<^verbatim>\<open>NULL\<close> pointer. Host memory maps a host address to the byte there, and has no
  entry where the host process may not touch it. \<open>py_error\<close> is the error indicator of
  the runtime (\<^verbatim>\<open>PyErr_Occurred\<close>): the error that is pending, if one is.
\<close>

type_synonym hook_dict = "(int \<times> pyobj) list"

record state =
  g_tinyhook_enabled :: bool
  g_module :: "pyobj option"
  g_pre_syscall_hooks :: "hook_dict option"
  g_post_syscall_hooks :: "hook_dict option"
  py_initialized :: bool
  py_error :: "pyerr option"
  host_memory :: "nat \<rightharpoonup> 8 word"
  stderr_out :: "log_line list"
  released :: "release list"

text \<open>The process before \<^verbatim>\<open>tinyhook_init\<close>: the static initialisers of the globals.\<close>

definition initial_state :: "(nat \<rightharpoonup> 8 word) \<Rightarrow> state" where
  "initial_state mem =
     \<lparr>g_tinyhook_enabled = False, g_module = None, g_pre_syscall_hooks = None,
      g_post_syscall_hooks = None, py_initialized = False, py_error = None,
      host_memory = mem, stderr_out = [], released = []\<rparr>"

definition fprintf_stderr :: "log_line \<Rightarrow> state \<Rightarrow> state" where
  "fprintf_stderr l s = s\<lparr>stderr_out := stderr_out s @ [l]\<rparr>"

text \<open>\<^verbatim>\<open>Py_XDECREF\<close> does nothing on \<^verbatim>\<open>NULL\<close>.\<close>

definition Py_XDECREF :: "release \<Rightarrow> 'a option \<Rightarrow> state \<Rightarrow> state" where
  "Py_XDECREF r p s = (case p of None \<Rightarrow> s | Some _ \<Rightarrow> s\<lparr>released := released s @ [r]\<rparr>)"

text \<open>\<^verbatim>\<open>Py_Finalize\<close> destroys the interpreter, its error indicator included.\<close>

definition Py_Finalize :: "state \<Rightarrow> state" where
  "Py_Finalize s =
     s\<lparr>py_initialized := False, py_error := None,
       released := released s @ [Finalize_runtime]\<rparr>"

text \<open>
  A C function called by the emulator either returns, or the process exits inside it
  with a status and it never returns.
\<close>

datatype 'a process = Done 'a | ProcessExit int

text \<open>
  \<^verbatim>\<open>PyErr_Print\<close>: when the pending error is \<^verbatim>\<open>SystemExit\<close> (the script called
  \<^verbatim>\<open>sys.exit\<close>) the process exits with its status; any other pending error is written
  to \<^verbatim>\<open>stderr\<close> as a traceback and the indicator is cleared.
\<close>

definition PyErr_Print :: "state \<Rightarrow> state process" where
  "PyErr_Print s =
     (case py_error s of
        None \<Rightarrow> Done s
      | Some (SystemExit status) \<Rightarrow> ProcessExit status
      | Some e \<Rightarrow> Done (fprintf_stderr (Traceback e) (s\<lparr>py_error := None\<rparr>)))"

text \<open>Whether an error is \<^verbatim>\<open>SystemExit\<close>, the request of a script to end the process.\<close>

fun is_exit :: "pyerr \<Rightarrow> bool" where
  "is_exit (SystemExit status) = True"
| "is_exit _ = False"

text \<open>
  \<^verbatim>\<open>PyLong_AsLongLong\<close> and \<^verbatim>\<open>PyLong_AsLong\<close> (a 64-bit \<^verbatim>\<open>long\<close>), called on objects
  that passed \<^verbatim>\<open>PyLong_Check\<close>: a value outside the range yields \<open>-1\<close> and leaves
  \<^verbatim>\<open>OverflowError\<close> pending. The callers below neither test nor clear the indicator.
\<close>

definition PyLong_AsLongLong :: "pyobj \<Rightarrow> state \<Rightarrow> 64 word \<times> state" where
  "PyLong_AsLongLong ob s =
     (if in_long_long (int_of ob) then (word_of_int (int_of ob), s)
      else (- 1, s\<lparr>py_error := Some OverflowError\<rparr>))"

definition PyLong_AsLong :: "pyobj \<Rightarrow> state \<Rightarrow> int \<times> state" where
  "PyLong_AsLong ob s =
     (if in_long_long (int_of ob) then (int_of ob, s)
      else (- 1, s\<lparr>py_error := Some OverflowError\<rparr>))"

text \<open>
  A call into the script: the callable, its positional arguments and the process state
  give what the callable does, an error it raises or a value it returns, and the state
  the script left behind (it may register hooks and write guest memory while it runs).
  That state includes the error indicator: an error that was pending before the call
  is still pending after it unless the script's own exception handling cleared it.
\<close>

type_synonym py_call = "pyobj \<Rightarrow> pyobj list \<Rightarrow> state \<Rightarrow> (pyerr + pyobj) \<times> state"

text \<open>
  \<^verbatim>\<open>PyObject_CallFunction\<close>: \<open>None\<close> is the \<^verbatim>\<open>NULL\<close> result. A raised error becomes the
  pending error. A returned value is handed on only when no error is pending at that
  moment; otherwise the runtime drops the value, sets \<^verbatim>\<open>SystemError\<close> ("returned a result
  with an exception set") and the call fails.
\<close>

definition PyObject_CallFunction ::
  "py_call \<Rightarrow> pyobj \<Rightarrow> pyobj list \<Rightarrow> state \<Rightarrow> pyobj option \<times> state" where
  "PyObject_CallFunction pycall callable xs s =
     (case pycall callable xs s of
        (Inl err, s1) \<Rightarrow> (None, s1\<lparr>py_error := Some err\<rparr>)
      | (Inr v, s1) \<Rightarrow>
          (case py_error s1 of
             None \<Rightarrow> (Some v, s1)
           | Some e \<Rightarrow> (None, s1\<lparr>py_error := Some SystemError\<rparr>)))"

definition PyDict_GetItem :: "hook_dict \<Rightarrow> int \<Rightarrow> pyobj option" where
  "PyDict_GetItem d key = map_of d key"

subsection \<open>Shutdown and the enabled flag\<close>

definition tinyhook_shutdown :: "state \<Rightarrow> state" where
  "tinyhook_shutdown s =
     (if g_tinyhook_enabled s then
        let s1 = Py_XDECREF DECREF_pre_hooks (g_pre_syscall_hooks s) s;
            s2 = Py_XDECREF DECREF_post_hooks (g_post_syscall_hooks s) s1;
            s3 = Py_XDECREF DECREF_module (g_module s) s2;
            s4 = s3\<lparr>g_pre_syscall_hooks := None, g_post_syscall_hooks := None,
                    g_module := None, g_tinyhook_enabled := False\<rparr>
        in if py_initialized s4 then Py_Finalize s4 else s4
      else s)"

definition tinyhook_enabled :: "state \<Rightarrow> bool" where
  "tinyhook_enabled s = g_tinyhook_enabled s"

subsection \<open>Pre-syscall dispatch\<close>

text \<open>
  The format unit \<^verbatim>\<open>L\<close> of \<^verbatim>\<open>PyObject_CallFunction\<close> turns a \<^verbatim>\<open>long long\<close> into a
  Python integer; the C code casts each \<^verbatim>\<open>abi_long\<close> to \<^verbatim>\<open>long long\<close> first.
\<close>

definition arg_L :: "'w::len word \<Rightarrow> pyobj" where
  "arg_L a = PyLong (sint (scast a :: 64 word))"

text \<open>
  The argument tuple built from the formats \<^verbatim>\<open>"iLLLLLLLL"\<close> and \<^verbatim>\<open>"iLLLLLLLLL"\<close>:
  the syscall number, then the given values in order.
\<close>

definition build_call_args :: "int \<Rightarrow> 'w::len word list \<Rightarrow> pyobj list" where
  "build_call_args num xs = PyLong num # map arg_L xs"

text \<open>The cast \<^verbatim>\<open>(abi_long)PyLong_AsLongLong(item)\<close>.\<close>

definition abi_long_of :: "pyobj \<Rightarrow> state \<Rightarrow> 'w::len word \<times> state" where
  "abi_long_of ob s = (case PyLong_AsLongLong ob s of (v, s1) \<Rightarrow> (scast v, s1))"

text \<open>The loop \<^verbatim>\<open>for (int i = 0; i < 8; i++)\<close> over the returned tuple, from index \<open>i\<close>.\<close>

function store_args ::
  "pyobj \<Rightarrow> nat \<Rightarrow> 'w::len word list \<Rightarrow> state \<Rightarrow> 'w word list \<times> state" where
  "store_args tup i ra s =
     (if i < 8 then
        (case PyTuple_GetItem tup i of
           None \<Rightarrow> store_args tup (i + 1) ra s
         | Some item \<Rightarrow>
             if PyLong_Check item then
               store_args tup (i + 1) (ra[i := fst (abi_long_of item s)])
                 (snd (abi_long_of item s :: 'w word \<times> state))
             else store_args tup (i + 1) ra s)
      else (ra, s))"
  by pat_completeness auto
termination
  by (relation "measure (\<lambda>(tup, i, ra, s). 8 - i)") auto

declare store_args.simps [simp del]

text \<open>Lines 430 to 456: reading the dictionary a pre-hook returned.\<close>

definition parse_action ::
  "pyobj \<Rightarrow> 'w::len word TinyHookResult \<Rightarrow> state \<Rightarrow> 'w word TinyHookResult \<times> state" where
  "parse_action py_result result s =
     (case PyDict_GetItemString py_result ''action'' of
        None \<Rightarrow> (result, s)
      | Some act \<Rightarrow>
          if PyLong_Check act then
            (if fst (PyLong_AsLong act s) = TINYHOOK_ACTION_SKIP
             then (result\<lparr>action := TINYHOOK_SKIP\<rparr>, snd (PyLong_AsLong act s))
             else (result, snd (PyLong_AsLong act s)))
          else (result, s))"

definition parse_args ::
  "pyobj \<Rightarrow> 'w::len word TinyHookResult \<Rightarrow> state \<Rightarrow> 'w word TinyHookResult \<times> state" where
  "parse_args py_result result s =
     (case PyDict_GetItemString py_result ''args'' of
        None \<Rightarrow> (result, s)
      | Some tup \<Rightarrow>
          if PyTuple_Check tup \<and> PyTuple_Size tup = 8
          then (result\<lparr>args := fst (store_args tup 0 (args result) s)\<rparr>,
                snd (store_args tup 0 (args result) s))
          else (result, s))"

definition parse_ret ::
  "pyobj \<Rightarrow> 'w::len word TinyHookResult \<Rightarrow> state \<Rightarrow> 'w word TinyHookResult \<times> state" where
  "parse_ret py_result result s =
     (case PyDict_GetItemString py_result ''ret'' of
        None \<Rightarrow> (result, s)
      | Some rv \<Rightarrow>
          if PyLong_Check rv
          then (result\<lparr>ret := fst (abi_long_of rv s)\<rparr>,
                snd (abi_long_of rv s :: 'w word \<times> state))
          else (result, s))"

definition parse_pre_result ::
  "pyobj \<Rightarrow> 'w::len word TinyHookResult \<Rightarrow> state \<Rightarrow> 'w word TinyHookResult \<times> state" where
  "parse_pre_result py_result result s =
     (if PyDict_Check py_result then
        (case parse_action py_result result s of
           (r1, s1) \<Rightarrow>
             (case parse_args py_result r1 s1 of
                (r2, s2) \<Rightarrow> parse_ret py_result r2 s2))
      else (result, s))"

text \<open>
  \<^verbatim>\<open>tinyhook_pre_syscall\<close>. The unused \<^verbatim>\<open>cpu_env\<close> is left out; \<open>result\<close> is what the
  caller's struct held before the call. When the function returns, it gives its return
  value, what the struct holds then, and the process state.
\<close>

definition tinyhook_pre_syscall ::
  "py_call \<Rightarrow> state \<Rightarrow> int \<Rightarrow> 'w::len word \<Rightarrow> 'w word \<Rightarrow> 'w word \<Rightarrow> 'w word \<Rightarrow>
   'w word \<Rightarrow> 'w word \<Rightarrow> 'w word \<Rightarrow> 'w word \<Rightarrow> 'w word TinyHookResult \<Rightarrow>
   (bool \<times> 'w word TinyHookResult \<times> state) process" where
  "tinyhook_pre_syscall pycall s num arg1 arg2 arg3 arg4 arg5 arg6 arg7 arg8 result =
     (if \<not> g_tinyhook_enabled s then Done (False, result, s)
      else case g_pre_syscall_hooks s of
        None \<Rightarrow> Done (False, result, s)
      | Some hooks \<Rightarrow>
          (let result1 = \<lparr>action = TINYHOOK_CONTINUE,
                          args = [arg1, arg2, arg3, arg4, arg5, arg6, arg7, arg8],
                          ret = 0\<rparr>
           in (case PyDict_GetItem hooks num of
                 None \<Rightarrow> Done (False, result1, s)
               | Some callback \<Rightarrow>
                   (case PyObject_CallFunction pycall callback
                           (build_call_args num
                              [arg1, arg2, arg3, arg4, arg5, arg6, arg7, arg8]) s of
                      (None, s1) \<Rightarrow>
                        (case PyErr_Print (fprintf_stderr (Log_pre_hook_error num) s1) of
                           ProcessExit status \<Rightarrow> ProcessExit status
                         | Done s2 \<Rightarrow> Done (False, result1, s2))
                    | (Some py_result, s1) \<Rightarrow>
                        (case parse_pre_result py_result result1 s1 of
                           (result2, s2) \<Rightarrow> Done (True, result2, s2))))))"

subsection \<open>Post-syscall dispatch\<close>

definition tinyhook_post_syscall ::
  "py_call \<Rightarrow> state \<Rightarrow> int \<Rightarrow> 'w::len word \<Rightarrow> 'w word \<Rightarrow> 'w word \<Rightarrow> 'w word \<Rightarrow>
   'w word \<Rightarrow> 'w word \<Rightarrow> 'w word \<Rightarrow> 'w word \<Rightarrow> 'w word \<Rightarrow>
   ('w word \<times> state) process" where
  "tinyhook_post_syscall pycall s num ret0 arg1 arg2 arg3 arg4 arg5 arg6 arg7 arg8 =
     (if \<not> g_tinyhook_enabled s then Done (ret0, s)
      else case g_post_syscall_hooks s of
        None \<Rightarrow> Done (ret0, s)
      | Some hooks \<Rightarrow>
          (case PyDict_GetItem hooks num of
             None \<Rightarrow> Done (ret0, s)
           | Some callback \<Rightarrow>
               (case PyObject_CallFunction pycall callback
                       (build_call_args num
                          [ret0, arg1, arg2, arg3, arg4, arg5, arg6, arg7, arg8]) s of
                  (None, s1) \<Rightarrow>
                    (case PyErr_Print (fprintf_stderr (Log_post_hook_error num) s1) of
                       ProcessExit status \<Rightarrow> ProcessExit status
                     | Done s2 \<Rightarrow> Done (ret0, s2))
                | (Some py_result, s1) \<Rightarrow>
                    (if PyLong_Check py_result then Done (abi_long_of py_result s1)
                     else Done (ret0, s1)))))"

subsection \<open>The script-facing functions: argument parsing\<close>

text \<open>
  What a script-facing C function gives back to the interpreter: a value, a raised
  Python error (the C function returns \<^verbatim>\<open>NULL\<close> with the error set), or \<open>Fault\<close> when the C
  code touches memory the host process may not touch (or dereferences \<^verbatim>\<open>NULL\<close>).
\<close>

datatype 'a outcome = Return 'a | Raise pyerr | Fault

text \<open>
  The format units of \<^verbatim>\<open>PyArg_ParseTuple\<close> that the file uses.
  \<^verbatim>\<open>i\<close>: a C \<^verbatim>\<open>int\<close>, range checked. \<^verbatim>\<open>K\<close>: an \<^verbatim>\<open>unsigned long long\<close>, taken modulo
  \<open>2 ^ 64\<close> without a range check. \<^verbatim>\<open>n\<close>: a \<^verbatim>\<open>Py_ssize_t\<close> (64 bits), range checked.
  \<^verbatim>\<open>y*\<close>: the bytes of a bytes object. A value of another kind is a \<^verbatim>\<open>TypeError\<close>.
\<close>

definition arg_i :: "pyobj \<Rightarrow> pyerr + int" where
  "arg_i ob =
     (if PyLong_Check ob then
        (if - (2 ^ 31) \<le> int_of ob \<and> int_of ob < 2 ^ 31 then Inr (int_of ob)
         else Inl OverflowError)
      else Inl TypeError)"

definition arg_K :: "pyobj \<Rightarrow> pyerr + 64 word" where
  "arg_K ob = (if PyLong_Check ob then Inr (word_of_int (int_of ob)) else Inl TypeError)"

definition arg_n :: "pyobj \<Rightarrow> pyerr + int" where
  "arg_n ob =
     (if PyLong_Check ob then
        (if in_long_long (int_of ob) then Inr (int_of ob) else Inl OverflowError)
      else Inl TypeError)"

fun arg_y_star :: "pyobj \<Rightarrow> pyerr + 8 word list" where
  "arg_y_star (PyBytes bs) = Inr bs"
| "arg_y_star _ = Inl TypeError"

subsection \<open>Hook registry\<close>

text \<open>
  \<^verbatim>\<open>PyDict_SetItem\<close> replaces the value of a key that is present and appends a new key
  otherwise; \<^verbatim>\<open>PyDict_DelItem\<close> removes the key (its \<^verbatim>\<open>KeyError\<close> for an absent key is
  cleared by the caller).
\<close>

definition PyDict_SetItem :: "hook_dict \<Rightarrow> int \<Rightarrow> pyobj \<Rightarrow> hook_dict" where
  "PyDict_SetItem d key v = AList.update key v d"

definition PyDict_DelItem :: "hook_dict \<Rightarrow> int \<Rightarrow> hook_dict" where
  "PyDict_DelItem d key = AList.delete key d"

definition py_register_pre_hook :: "pyobj list \<Rightarrow> state \<Rightarrow> pyobj outcome \<times> state" where
  "py_register_pre_hook pyargs s =
     (case pyargs of
        [a, callback] \<Rightarrow>
          (case arg_i a of
             Inl e \<Rightarrow> (Raise e, s)
           | Inr syscall_num \<Rightarrow>
               if \<not> PyCallable_Check callback then (Raise TypeError, s)
               else (case g_pre_syscall_hooks s of
                       None \<Rightarrow> (Fault, s)
                     | Some d \<Rightarrow>
                         (Return PyNone,
                          s\<lparr>g_pre_syscall_hooks := Some (PyDict_SetItem d syscall_num callback)\<rparr>)))
      | _ \<Rightarrow> (Raise TypeError, s))"

definition py_register_post_hook :: "pyobj list \<Rightarrow> state \<Rightarrow> pyobj outcome \<times> state" where
  "py_register_post_hook pyargs s =
     (case pyargs of
        [a, callback] \<Rightarrow>
          (case arg_i a of
             Inl e \<Rightarrow> (Raise e, s)
           | Inr syscall_num \<Rightarrow>
               if \<not> PyCallable_Check callback then (Raise TypeError, s)
               else (case g_post_syscall_hooks s of
                       None \<Rightarrow> (Fault, s)
                     | Some d \<Rightarrow>
                         (Return PyNone,
                          s\<lparr>g_post_syscall_hooks := Some (PyDict_SetItem d syscall_num callback)\<rparr>)))
      | _ \<Rightarrow> (Raise TypeError, s))"

definition py_unregister_pre_hook :: "pyobj list \<Rightarrow> state \<Rightarrow> pyobj outcome \<times> state" where
  "py_unregister_pre_hook pyargs s =
     (case pyargs of
        [a] \<Rightarrow>
          (case arg_i a of
             Inl e \<Rightarrow> (Raise e, s)
           | Inr syscall_num \<Rightarrow>
               (case g_pre_syscall_hooks s of
                  None \<Rightarrow> (Fault, s)
                | Some d \<Rightarrow>
                    (Return PyNone,
                     s\<lparr>g_pre_syscall_hooks := Some (PyDict_DelItem d syscall_num)\<rparr>)))
      | _ \<Rightarrow> (Raise TypeError, s))"

definition py_unregister_post_hook :: "pyobj list \<Rightarrow> state \<Rightarrow> pyobj outcome \<times> state" where
  "py_unregister_post_hook pyargs s =
     (case pyargs of
        [a] \<Rightarrow>
          (case arg_i a of
             Inl e \<Rightarrow> (Raise e, s)
           | Inr syscall_num \<Rightarrow>
               (case g_post_syscall_hooks s of
                  None \<Rightarrow> (Fault, s)
                | Some d \<Rightarrow>
                    (Return PyNone,
                     s\<lparr>g_post_syscall_hooks := Some (PyDict_DelItem d syscall_num)\<rparr>)))
      | _ \<Rightarrow> (Raise TypeError, s))"

text \<open>The registry of the specification: a hook kind selects the table.\<close>

datatype hook_kind = Pre | Post

definition register :: "hook_kind \<Rightarrow> pyobj list \<Rightarrow> state \<Rightarrow> pyobj outcome \<times> state" where
  "register kind = (case kind of Pre \<Rightarrow> py_register_pre_hook | Post \<Rightarrow> py_register_post_hook)"

definition table :: "hook_kind \<Rightarrow> state \<Rightarrow> hook_dict option" where
  "table kind = (case kind of Pre \<Rightarrow> g_pre_syscall_hooks | Post \<Rightarrow> g_post_syscall_hooks)"

definition lookup :: "hook_kind \<Rightarrow> int \<Rightarrow> state \<Rightarrow> pyobj option" where
  "lookup kind num s = (case table kind s of None \<Rightarrow> None | Some d \<Rightarrow> PyDict_GetItem d num)"

definition entries_for :: "hook_kind \<Rightarrow> int \<Rightarrow> state \<Rightarrow> nat" where
  "entries_for kind num s =
     (case table kind s of None \<Rightarrow> 0 | Some d \<Rightarrow> length (filter (\<lambda>kv. fst kv = num) d))"

subsection \<open>Memory bridge\<close>

text \<open>
  Modelled from the spec: \<^verbatim>\<open>g2h_untagged\<close> is defined outside these files. The
  specification's address-space translator "maps a guest virtual address to a
  host-accessible pointer or signals no mapping"; it is the parameter \<open>g2h\<close>, with \<open>None\<close>
  for the \<^verbatim>\<open>NULL\<close> pointer.
\<close>

type_synonym translator = "64 word \<Rightarrow> nat option"

text \<open>Reading \<open>n\<close> bytes of host memory from \<open>p\<close>: \<open>None\<close> when one of them is not there.\<close>

fun read_bytes :: "(nat \<rightharpoonup> 8 word) \<Rightarrow> nat \<Rightarrow> nat \<Rightarrow> 8 word list option" where
  "read_bytes mem p 0 = Some []"
| "read_bytes mem p (Suc n) =
     (case mem p of
        None \<Rightarrow> None
      | Some b \<Rightarrow> (case read_bytes mem (Suc p) n of None \<Rightarrow> None | Some bs \<Rightarrow> Some (b # bs)))"

text \<open>\<^verbatim>\<open>memcpy\<close> into host memory, byte by byte: \<open>None\<close> when a target byte is not there.\<close>

fun memcpy :: "(nat \<rightharpoonup> 8 word) \<Rightarrow> nat \<Rightarrow> 8 word list \<Rightarrow> (nat \<rightharpoonup> 8 word) option" where
  "memcpy mem p [] = Some mem"
| "memcpy mem p (b # bs) =
     (case mem p of None \<Rightarrow> None | Some _ \<Rightarrow> memcpy (mem(p \<mapsto> b)) (Suc p) bs)"

definition PyBytes_FromStringAndSize :: "(nat \<rightharpoonup> 8 word) \<Rightarrow> nat \<Rightarrow> nat \<Rightarrow> pyobj outcome" where
  "PyBytes_FromStringAndSize mem p n =
     (case read_bytes mem p n of None \<Rightarrow> Fault | Some bs \<Rightarrow> Return (PyBytes bs))"

text \<open>
  \<^verbatim>\<open>PyUnicode_FromStringAndSize\<close> decodes UTF-8 strictly: a stray or missing continuation
  byte, an overlong form, a surrogate or a code point above \<open>0x10FFFF\<close> raises
  \<^verbatim>\<open>UnicodeDecodeError\<close>.
\<close>

definition cont :: "nat \<Rightarrow> bool" where
  "cont b = (128 \<le> b \<and> b \<le> 191)"

fun utf8_decode :: "nat list \<Rightarrow> nat list option" where
  "utf8_decode [] = Some []"
| "utf8_decode (b0 # bs) =
     (if b0 < 128 then
        (case utf8_decode bs of None \<Rightarrow> None | Some cs \<Rightarrow> Some (b0 # cs))
      else if 194 \<le> b0 \<and> b0 \<le> 223 then
        (case bs of
           b1 # r \<Rightarrow>
             if cont b1 then
               (case utf8_decode r of
                  None \<Rightarrow> None
                | Some cs \<Rightarrow> Some (((b0 - 192) * 64 + (b1 - 128)) # cs))
             else None
         | _ \<Rightarrow> None)
      else if 224 \<le> b0 \<and> b0 \<le> 239 then
        (case bs of
           b1 # b2 # r \<Rightarrow>
             if cont b1 \<and> cont b2 \<and> (if b0 = 224 then 160 \<le> b1 else True)
                \<and> (if b0 = 237 then b1 \<le> 159 else True) then
               (case utf8_decode r of
                  None \<Rightarrow> None
                | Some cs \<Rightarrow>
                    Some (((b0 - 224) * 4096 + (b1 - 128) * 64 + (b2 - 128)) # cs))
             else None
         | _ \<Rightarrow> None)
      else if 240 \<le> b0 \<and> b0 \<le> 244 then
        (case bs of
           b1 # b2 # b3 # r \<Rightarrow>
             if cont b1 \<and> cont b2 \<and> cont b3 \<and> (if b0 = 240 then 144 \<le> b1 else True)
                \<and> (if b0 = 244 then b1 \<le> 143 else True) then
               (case utf8_decode r of
                  None \<Rightarrow> None
                | Some cs \<Rightarrow>
                    Some (((b0 - 240) * 262144 + (b1 - 128) * 4096 + (b2 - 128) * 64
                           + (b3 - 128)) # cs))
             else None
         | _ \<Rightarrow> None)
      else None)"

definition PyUnicode_FromStringAndSize :: "(nat \<rightharpoonup> 8 word) \<Rightarrow> nat \<Rightarrow> nat \<Rightarrow> pyobj outcome" where
  "PyUnicode_FromStringAndSize mem p n =
     (case read_bytes mem p n of
        None \<Rightarrow> Fault
      | Some bs \<Rightarrow>
          (case utf8_decode (map unat bs) of
             None \<Rightarrow> Raise UnicodeDecodeError
           | Some cs \<Rightarrow> Return (PyUnicode cs)))"

text \<open>
  Modelled from the spec: \<^verbatim>\<open>target_strlen\<close> is defined outside these files. The
  specification calls it "a bounded terminator scan supplied by the address-space
  collaborator" whose result may be invalid. The scan walks the guest addresses from
  \<open>addr\<close>, counts the bytes before the first zero byte, and gives a negative error code
  when an address on the way has no readable mapping or \<open>2 ^ 31\<close> bytes hold no
  terminator.
\<close>

definition TARGET_EFAULT :: int where
  "TARGET_EFAULT = 14"

function strlen_scan :: "translator \<Rightarrow> (nat \<rightharpoonup> 8 word) \<Rightarrow> 64 word \<Rightarrow> nat \<Rightarrow> int" where
  "strlen_scan g2h mem addr n =
     (if 2147483647 < n then - TARGET_EFAULT
      else (case g2h (addr + word_of_nat n) of
              None \<Rightarrow> - TARGET_EFAULT
            | Some p \<Rightarrow>
                (case mem p of
                   None \<Rightarrow> - TARGET_EFAULT
                 | Some b \<Rightarrow> if b = 0 then int n else strlen_scan g2h mem addr (n + 1))))"
  by pat_completeness auto
termination
  by (relation "measure (\<lambda>(g2h, mem, addr, n). 2147483648 - n)") auto

declare strlen_scan.simps [simp del]

definition target_strlen :: "translator \<Rightarrow> (nat \<rightharpoonup> 8 word) \<Rightarrow> 64 word \<Rightarrow> int" where
  "target_strlen g2h mem addr = strlen_scan g2h mem addr 0"

definition py_read_memory :: "translator \<Rightarrow> pyobj list \<Rightarrow> state \<Rightarrow> pyobj outcome" where
  "py_read_memory g2h pyargs s =
     (case pyargs of
        [a, n] \<Rightarrow>
          (case arg_K a of
             Inl e \<Rightarrow> Raise e
           | Inr addr \<Rightarrow>
               (case arg_n n of
                  Inl e \<Rightarrow> Raise e
                | Inr size_arg \<Rightarrow>
                    if size_arg \<le> 0 then Raise ValueError
                    else (case g2h addr of
                            None \<Rightarrow> Raise MemoryError
                          | Some host_ptr \<Rightarrow>
                              PyBytes_FromStringAndSize (host_memory s) host_ptr
                                (nat size_arg))))
      | _ \<Rightarrow> Raise TypeError)"

definition py_write_memory :: "translator \<Rightarrow> pyobj list \<Rightarrow> state \<Rightarrow> pyobj outcome \<times> state" where
  "py_write_memory g2h pyargs s =
     (case pyargs of
        [a, d] \<Rightarrow>
          (case arg_K a of
             Inl e \<Rightarrow> (Raise e, s)
           | Inr addr \<Rightarrow>
               (case arg_y_star d of
                  Inl e \<Rightarrow> (Raise e, s)
                | Inr buffer \<Rightarrow>
                    (case g2h addr of
                       None \<Rightarrow> (Raise MemoryError, s)
                     | Some host_ptr \<Rightarrow>
                         (case memcpy (host_memory s) host_ptr buffer of
                            None \<Rightarrow> (Fault, s)
                          | Some mem \<Rightarrow> (Return PyNone, s\<lparr>host_memory := mem\<rparr>)))))
      | _ \<Rightarrow> (Raise TypeError, s))"

definition py_read_string :: "translator \<Rightarrow> pyobj list \<Rightarrow> state \<Rightarrow> pyobj outcome" where
  "py_read_string g2h pyargs s =
     (case pyargs of
        [a] \<Rightarrow>
          (case arg_K a of
             Inl e \<Rightarrow> Raise e
           | Inr addr \<Rightarrow>
               (case g2h addr of
                  None \<Rightarrow> Raise MemoryError
                | Some host_ptr \<Rightarrow>
                    (let len = target_strlen g2h (host_memory s) addr
                     in if len < 0 then Raise MemoryError
                        else PyUnicode_FromStringAndSize (host_memory s) host_ptr (nat len))))
      | _ \<Rightarrow> Raise TypeError)"

text \<open>
  The error classes of the specification: \<^verbatim>\<open>ValueError\<close>, \<^verbatim>\<open>TypeError\<close> and the range
  error of argument parsing are its InvalidArgument ("bad bridge parameters,
  non-invocable registration target"), \<^verbatim>\<open>MemoryError\<close> is its AddressError.
\<close>

datatype error_class = InvalidArgument | AddressError | OtherError

fun error_class_of :: "pyerr \<Rightarrow> error_class" where
  "error_class_of ValueError = InvalidArgument"
| "error_class_of TypeError = InvalidArgument"
| "error_class_of OverflowError = InvalidArgument"
| "error_class_of MemoryError = AddressError"
| "error_class_of _ = OtherError"

subsection \<open>Initialisation\<close>

text \<open>
  What the runtime and the file system answer during \<^verbatim>\<open>tinyhook_init\<close>: whether
  \<^verbatim>\<open>PyImport_AppendInittab\<close> succeeds, whether the runtime is up after
  \<^verbatim>\<open>Py_Initialize\<close>, whether each \<^verbatim>\<open>PyDict_New\<close> returns a dictionary, what importing the
  module gives, whether \<^verbatim>\<open>fopen\<close> opens the script, and what running the script does to
  the process (the script registers its hooks while it runs).
\<close>

record py_env =
  append_inittab_ok :: bool
  initialize_ok :: bool
  pre_dict_ok :: bool
  post_dict_ok :: bool
  import_module :: "pyerr + pyobj"
  fopen_ok :: "string \<Rightarrow> bool"
  run_file :: "string \<Rightarrow> state \<Rightarrow> (pyerr + unit) \<times> state"

definition Py_Initialize :: "py_env \<Rightarrow> state \<Rightarrow> state" where
  "Py_Initialize env s = (if py_initialized s then s else s\<lparr>py_initialized := initialize_ok env\<rparr>)"

definition PyDict_New :: "bool \<Rightarrow> hook_dict option" where
  "PyDict_New ok = (if ok then Some [] else None)"

text \<open>
  \<^verbatim>\<open>tinyhook_init\<close>. The insertion of the script's directory into \<^verbatim>\<open>sys.path\<close> and the
  binding of the module in \<^verbatim>\<open>__main__\<close> change nothing that the state record holds.
\<close>

definition tinyhook_init :: "py_env \<Rightarrow> string \<Rightarrow> state \<Rightarrow> (int \<times> state) process" where
  "tinyhook_init env script_path s =
     (if \<not> append_inittab_ok env then Done (- 1, fprintf_stderr Log_register_failed s)
      else
        (let s1 = Py_Initialize env s in
         if \<not> py_initialized s1 then Done (- 1, fprintf_stderr Log_initialize_failed s1)
         else
           (let s2 = s1\<lparr>g_pre_syscall_hooks := PyDict_New (pre_dict_ok env),
                         g_post_syscall_hooks := PyDict_New (post_dict_ok env)\<rparr> in
            if g_pre_syscall_hooks s2 = None \<or> g_post_syscall_hooks s2 = None then
              Done (- 1, tinyhook_shutdown (fprintf_stderr Log_dict_failed s2))
            else
              (case import_module env of
                 Inl e \<Rightarrow>
                   (case PyErr_Print
                           (fprintf_stderr Log_import_failed
                              (s2\<lparr>g_module := None, py_error := Some e\<rparr>)) of
                      ProcessExit status \<Rightarrow> ProcessExit status
                    | Done s3 \<Rightarrow> Done (- 1, tinyhook_shutdown s3))
               | Inr m \<Rightarrow>
                   (let s3 = s2\<lparr>g_module := Some m\<rparr> in
                    if \<not> fopen_ok env script_path then
                      Done (- 1, tinyhook_shutdown
                                   (fprintf_stderr (Log_open_failed script_path) s3))
                    else
                      (case run_file env script_path s3 of
                         (Inl e, s4) \<Rightarrow>
                           (case PyErr_Print
                                   (fprintf_stderr (Log_script_error script_path)
                                      (s4\<lparr>py_error := Some e\<rparr>)) of
                              ProcessExit status \<Rightarrow> ProcessExit status
                            | Done s5 \<Rightarrow> Done (- 1, tinyhook_shutdown s5))
                       | (Inr u, s4) \<Rightarrow>
                           Done (0, fprintf_stderr (Log_loaded script_path)
                                      (s4\<lparr>g_tinyhook_enabled := True\<rparr>))))))))"

subsection \<open>Concrete inputs\<close>

text \<open>A run in which everything succeeds until \<^verbatim>\<open>fopen\<close> cannot open the script.\<close>

definition env_open_fails :: py_env where
  "env_open_fails =
     \<lparr>append_inittab_ok = True, initialize_ok = True, pre_dict_ok = True,
      post_dict_ok = True, import_module = Inr (PyModule ''tinyhook''),
      fopen_ok = (\<lambda>path. False), run_file = (\<lambda>path s. (Inr (), s))\<rparr>"

text \<open>A running subsystem with one pre-hook and one post-hook, both for syscall 59.\<close>

definition hooked_state :: state where
  "hooked_state =
     \<lparr>g_tinyhook_enabled = True, g_module = Some (PyModule ''tinyhook''),
      g_pre_syscall_hooks = Some [(59, PyFunction 0)],
      g_post_syscall_hooks = Some [(59, PyFunction 1)],
      py_initialized = True, py_error = None, host_memory = Map.empty, stderr_out = [],
      released = []\<rparr>"

text \<open>Scripts whose every callable returns a fixed value, or raises a fixed error.\<close>

definition call_returns :: "pyobj \<Rightarrow> py_call" where
  "call_returns v = (\<lambda>callback xs s. (Inr v, s))"


text \<open>What the caller's result struct may hold before a dispatch call.\<close>

definition stale_result :: "64 word TinyHookResult" where
  "stale_result = \<lparr>action = TINYHOOK_SKIP, args = [9, 9, 9, 9, 9, 9, 9, 9], ret = 7\<rparr>"

text \<open>The same subsystem with both hook tables empty.\<close>

definition unhooked_state :: state where
  "unhooked_state =
     hooked_state\<lparr>g_pre_syscall_hooks := Some [], g_post_syscall_hooks := Some []\<rparr>"

text \<open>Dictionaries a pre-hook may return under the key \<open>args\<close>.\<close>

definition mixed_tuple :: "pyobj list" where
  "mixed_tuple = [PyLong 7, PyNone, PyNone, PyNone, PyNone, PyNone, PyNone, PyNone]"

definition mixed_args_dict :: pyobj where
  "mixed_args_dict = PyDict [(py_str ''args'', PyTuple mixed_tuple)]"

definition int_tuple :: "pyobj list" where
  "int_tuple = [PyLong 11, PyLong 12, PyLong 13, PyLong 14, PyLong 15, PyLong 16, PyLong 17,
                PyLong 18]"

definition int_args_dict :: pyobj where
  "int_args_dict = PyDict [(py_str ''args'', PyTuple int_tuple)]"

definition short_args_dict :: pyobj where
  "short_args_dict = PyDict [(py_str ''args'', PyTuple [PyLong 11, PyLong 12])]"

text \<open>
  A translator that maps the first 4096 guest addresses to the same host addresses and
  nothing else, a host memory holding \<open>"hi\0"\<close> at address 0 and nothing above, and one
  holding the byte \<open>0xFF\<close> and a terminator.
\<close>

definition low_g2h :: translator where
  "low_g2h a = (if a < 4096 then Some (unat a) else None)"

definition hi_memory :: "nat \<rightharpoonup> 8 word" where
  "hi_memory = [0 \<mapsto> 104, 1 \<mapsto> 105, 2 \<mapsto> 0]"

definition hi_state :: state where
  "hi_state = hooked_state\<lparr>host_memory := hi_memory\<rparr>"

definition latin1_memory :: "nat \<rightharpoonup> 8 word" where
  "latin1_memory = [0 \<mapsto> 255, 1 \<mapsto> 0]"

definition latin1_state :: state where
  "latin1_state = hooked_state\<lparr>host_memory := latin1_memory\<rparr>"

text \<open>
  A script whose pre-hook (callable 0) returns \<open>{action: SKIP, ret: 42}\<close> and whose
  post-hook (callable 1) returns the integer \<open>2 ^ 63\<close>.
\<close>

definition skip_dict :: pyobj where
  "skip_dict = PyDict [(py_str ''action'', PyLong 1), (py_str ''ret'', PyLong 42)]"

definition skip_script :: py_call where
  "skip_script =
     (\<lambda>callback xs s. (if callback = PyFunction 0 then Inr skip_dict else Inr (PyLong (2 ^ 63)), s))"

section \<open>Properties\<close>

subsection \<open>Conversions and the argument loop\<close>

lemma scast_long_long:
  "in_long_long v \<Longrightarrow> scast (word_of_int v :: 64 word) = (word_of_int v :: 'w::len word)"
  unfolding in_long_long_def
  by (simp add: scast_eq sint_sbintrunc' signed_take_bit_int_eq_self)

lemma abi_long_of_in_range:
  "in_long_long (int_of v) \<Longrightarrow>
     (abi_long_of v s :: 'w::len word \<times> state) = (word_of_int (int_of v), s)"
  by (simp add: abi_long_of_def PyLong_AsLongLong_def scast_long_long)

lemma abi_long_of_overflow:
  "\<not> in_long_long (int_of v) \<Longrightarrow>
     (abi_long_of v s :: 'w::len word \<times> state) = (- 1, s\<lparr>py_error := Some OverflowError\<rparr>)"
  by (simp add: abi_long_of_def PyLong_AsLongLong_def)

lemma fst_abi_long_of:
  "fst (abi_long_of v s :: 'w::len word \<times> state) = fst (abi_long_of v s' :: 'w word \<times> state)"
  by (cases "in_long_long (int_of v)") (simp_all add: abi_long_of_in_range abi_long_of_overflow)

lemma store_args_length:
  fixes ra :: "'w::len word list"
  shows "length (fst (store_args tup i ra s)) = length ra"
proof (induction tup i ra s rule: store_args.induct)
  case (1 tup i ra s)
  note unfold = store_args.simps [of tup i ra s]
  show ?case
  proof (cases "i < 8")
    case False
    with unfold show ?thesis by simp
  next
    case True
    note lt = this
    show ?thesis
    proof (cases "PyTuple_GetItem tup i")
      case None
      with lt unfold have "store_args tup i ra s = store_args tup (i + 1) ra s"
        by simp
      with "1.IH"(1) [OF lt None] show ?thesis by simp
    next
      case (Some item)
      show ?thesis
      proof (cases "PyLong_Check item")
        case False
        with lt Some unfold have "store_args tup i ra s = store_args tup (i + 1) ra s"
          by simp
        with "1.IH"(3) [OF lt Some False] show ?thesis by simp
      next
        case True
        with lt Some unfold have "store_args tup i ra s =
            store_args tup (i + 1) (ra[i := fst (abi_long_of item s)])
              (snd (abi_long_of item s :: 'w word \<times> state))"
          by simp
        with "1.IH"(2) [OF lt Some True] show ?thesis by simp
      qed
    qed
  qed
qed

lemma store_args_nth:
  fixes ra :: "'w::len word list"
  assumes "k < length ra"
  shows "fst (store_args tup i ra s) ! k =
     (if i \<le> k \<and> k < 8 then
        (case PyTuple_GetItem tup k of
           None \<Rightarrow> ra ! k
         | Some item \<Rightarrow>
             if PyLong_Check item then fst (abi_long_of item s0 :: 'w word \<times> state)
             else ra ! k)
      else ra ! k)"
  using assms
proof (induction tup i ra s rule: store_args.induct)
  case (1 tup i ra s)
  note unfold = store_args.simps [of tup i ra s]
  show ?case
  proof (cases "i < 8")
    case False
    with unfold show ?thesis by auto
  next
    case True
    note lt = this
    show ?thesis
    proof (cases "PyTuple_GetItem tup i")
      case None
      with lt unfold have step: "store_args tup i ra s = store_args tup (i + 1) ra s"
        by simp
      show ?thesis
      proof (cases "k = i")
        case True
        with "1.IH"(1) [OF lt None "1.prems"] lt None show ?thesis
          unfolding step by simp
      next
        case False
        with "1.IH"(1) [OF lt None "1.prems"] lt show ?thesis
          unfolding step by (simp split: option.splits)
      qed
    next
      case (Some item)
      show ?thesis
      proof (cases "PyLong_Check item")
        case False
        note notint = this
        with lt Some unfold have step: "store_args tup i ra s = store_args tup (i + 1) ra s"
          by simp
        show ?thesis
        proof (cases "k = i")
          case True
          with "1.IH"(3) [OF lt Some notint "1.prems"] lt Some notint show ?thesis
            unfolding step by simp
        next
          case False
          with "1.IH"(3) [OF lt Some notint "1.prems"] lt show ?thesis
            unfolding step by (simp split: option.splits)
        qed
      next
        case True
        note isint = this
        let ?ra = "ra[i := fst (abi_long_of item s :: 'w word \<times> state)]"
        let ?s = "snd (abi_long_of item s :: 'w word \<times> state)"
        from lt Some isint unfold
        have step: "store_args tup i ra s = store_args tup (i + 1) ?ra ?s"
          by simp
        have len: "k < length ?ra" using "1.prems" by simp
        have eq: "fst (abi_long_of item s :: 'w word \<times> state) = fst (abi_long_of item s0)"
          by (rule fst_abi_long_of)
        note ih = "1.IH"(2) [OF lt Some isint len]
        show ?thesis
        proof (cases "k = i")
          case True
          with ih lt Some isint "1.prems" eq show ?thesis
            unfolding step by simp
        next
          case False
          with ih lt "1.prems" show ?thesis
            unfolding step by (simp split: option.splits)
        qed
      qed
    qed
  qed
qed

subsection \<open>Calls into the script and the error indicator\<close>

lemma PyErr_Print_error:
  "py_error s = Some e \<Longrightarrow> \<not> is_exit e \<Longrightarrow>
     PyErr_Print s = Done (fprintf_stderr (Traceback e) (s\<lparr>py_error := None\<rparr>))"
  by (cases e) (simp_all add: PyErr_Print_def)

lemma PyErr_Print_exit:
  "py_error s = Some (SystemExit status) \<Longrightarrow> PyErr_Print s = ProcessExit status"
  by (simp add: PyErr_Print_def)


lemma call_returns_clean:
  "pycall callback xs s = (Inr v, s1) \<Longrightarrow> py_error s1 = None \<Longrightarrow>
     PyObject_CallFunction pycall callback xs s = (Some v, s1)"
  by (simp add: PyObject_CallFunction_def)

lemma call_returns_pending:
  "pycall callback xs s = (Inr v, s1) \<Longrightarrow> py_error s1 = Some e \<Longrightarrow>
     PyObject_CallFunction pycall callback xs s = (None, s1\<lparr>py_error := Some SystemError\<rparr>)"
  by (simp add: PyObject_CallFunction_def)

lemma hooked_state_fields:
  "g_tinyhook_enabled hooked_state"
  "g_pre_syscall_hooks hooked_state = Some [(59, PyFunction 0)]"
  "g_post_syscall_hooks hooked_state = Some [(59, PyFunction 1)]"
  "py_error hooked_state = None"
  "stderr_out hooked_state = []"
  by (simp_all add: hooked_state_def)

subsection \<open>Initialisation failure\<close>

text \<open>
  Once the runtime is up and both tables are allocated, an init that fails at the open
  of the script, or at a script error that is not \<^verbatim>\<open>SystemExit\<close>, releases nothing: the
  cleanup it calls is a no-op while the enabled flag is unset.
\<close>

lemma shutdown_disabled: "\<not> g_tinyhook_enabled s \<Longrightarrow> tinyhook_shutdown s = s"
  by (simp add: tinyhook_shutdown_def)

lemma init_open_failure_leaves_resources:
  assumes "\<not> g_tinyhook_enabled s" and "append_inittab_ok env" and "initialize_ok env"
    and "pre_dict_ok env" and "post_dict_ok env" and "import_module env = Inr m"
    and "\<not> fopen_ok env path"
  shows "\<exists>s'. tinyhook_init env path s = Done (- 1, s')
       \<and> released s' = released s \<and> py_initialized s'
       \<and> g_pre_syscall_hooks s' = Some [] \<and> g_post_syscall_hooks s' = Some []
       \<and> g_module s' = Some m"
  using assms
  by (simp add: tinyhook_init_def Let_def PyDict_New_def Py_Initialize_def
      fprintf_stderr_def shutdown_disabled)

lemma init_script_failure_leaves_resources:
  assumes "\<not> g_tinyhook_enabled s" and "append_inittab_ok env" and "initialize_ok env"
    and "pre_dict_ok env" and "post_dict_ok env" and "import_module env = Inr m"
    and "fopen_ok env path"
    and "run_file env path
           ((Py_Initialize env s)\<lparr>g_pre_syscall_hooks := Some [],
              g_post_syscall_hooks := Some [], g_module := Some m\<rparr>) = (Inl e, s4)"
    and "\<not> is_exit e" and "\<not> g_tinyhook_enabled s4"
  shows "tinyhook_init env path s =
           Done (- 1, s4\<lparr>py_error := None,
                        stderr_out := stderr_out s4 @ [Log_script_error path, Traceback e]\<rparr>)"
proof -
  let ?s = "fprintf_stderr (Log_script_error path) (s4\<lparr>py_error := Some e\<rparr>)"
  have "py_error ?s = Some e" by (simp add: fprintf_stderr_def)
  from PyErr_Print_error [OF this \<open>\<not> is_exit e\<close>]
  have "PyErr_Print ?s =
      Done (s4\<lparr>py_error := None,
               stderr_out := stderr_out s4 @ [Log_script_error path, Traceback e]\<rparr>)"
    by (simp add: fprintf_stderr_def)
  with assms show ?thesis
    by (simp add: tinyhook_init_def Let_def PyDict_New_def Py_Initialize_def
        shutdown_disabled)
qed

text \<open>
  C1. The claim: every failure during init aborts, moves the subsystem to SHUTDOWN,
  releases every partially acquired resource (hook tables, module reference, the started
  runtime), reports failure and leaves no partial state live.
  The code reports the failure, but \<^verbatim>\<open>tinyhook_shutdown\<close>, which the failure paths call to
  clean up, does nothing unless \<^verbatim>\<open>g_tinyhook_enabled\<close> is set, and init sets that flag only
  on success. When the script cannot be opened, init returns \<open>-1\<close> and leaves both hook
  tables, the module reference and the running interpreter in place: nothing is released.
\<close>

theorem init_open_failure_releases_nothing:
  "tinyhook_init env_open_fails ''hooks.py'' (initial_state Map.empty) =
     Done (- 1,
      \<lparr>g_tinyhook_enabled = False, g_module = Some (PyModule ''tinyhook''),
       g_pre_syscall_hooks = Some [], g_post_syscall_hooks = Some [],
       py_initialized = True, py_error = None, host_memory = Map.empty,
       stderr_out = [Log_open_failed ''hooks.py''], released = []\<rparr>)"
  by (simp add: tinyhook_init_def env_open_fails_def initial_state_def Py_Initialize_def
      PyDict_New_def fprintf_stderr_def tinyhook_shutdown_def)

subsection \<open>Shutdown\<close>

text \<open>
  C8. \<^verbatim>\<open>tinyhook_shutdown\<close> is idempotent: a second call changes nothing, so it releases
  nothing again and writes no error. After a shutdown \<^verbatim>\<open>tinyhook_enabled\<close> is false,
  \<^verbatim>\<open>tinyhook_pre_syscall\<close> reports that no hook fired and leaves the caller's result and
  the process untouched, and \<^verbatim>\<open>tinyhook_post_syscall\<close> returns the original return value.
\<close>

theorem shutdown_idempotent_then_inert:
  "tinyhook_shutdown (tinyhook_shutdown s) = tinyhook_shutdown s
   \<and> released (tinyhook_shutdown (tinyhook_shutdown s)) = released (tinyhook_shutdown s)
   \<and> \<not> tinyhook_enabled (tinyhook_shutdown s)
   \<and> tinyhook_pre_syscall pycall (tinyhook_shutdown s) num a1 a2 a3 a4 a5 a6 a7 a8 r0 =
         Done (False, r0, tinyhook_shutdown s)
   \<and> tinyhook_post_syscall pycall (tinyhook_shutdown s) num ret0 a1 a2 a3 a4 a5 a6 a7 a8 =
         Done (ret0, tinyhook_shutdown s)"
proof -
  have off: "\<not> g_tinyhook_enabled (tinyhook_shutdown s)"
    by (simp add: tinyhook_shutdown_def Let_def Py_Finalize_def Py_XDECREF_def
        split: option.splits)
  then have idem: "tinyhook_shutdown (tinyhook_shutdown s) = tinyhook_shutdown s"
    by (simp add: tinyhook_shutdown_def [of "tinyhook_shutdown s"])
  from off idem show ?thesis
    by (simp add: tinyhook_enabled_def tinyhook_pre_syscall_def tinyhook_post_syscall_def)
qed

theorem shutdown_idempotent_then_inert_witness:
  "tinyhook_shutdown hooked_state =
     hooked_state\<lparr>g_tinyhook_enabled := False, g_module := None, g_pre_syscall_hooks := None,
       g_post_syscall_hooks := None, py_initialized := False,
       released := [DECREF_pre_hooks, DECREF_post_hooks, DECREF_module, Finalize_runtime]\<rparr>
   \<and> tinyhook_shutdown (tinyhook_shutdown hooked_state) = tinyhook_shutdown hooked_state
   \<and> released (tinyhook_shutdown (tinyhook_shutdown hooked_state)) =
       [DECREF_pre_hooks, DECREF_post_hooks, DECREF_module, Finalize_runtime]
   \<and> tinyhook_enabled hooked_state
   \<and> \<not> tinyhook_enabled (tinyhook_shutdown hooked_state)
   \<and> tinyhook_pre_syscall (call_returns (PyLong 3)) (tinyhook_shutdown hooked_state) 59
         1 2 3 4 5 6 7 8 stale_result =
       Done (False, stale_result, tinyhook_shutdown hooked_state)
   \<and> tinyhook_post_syscall (call_returns (PyLong 3)) (tinyhook_shutdown hooked_state) 59
         (5 :: 64 word) 1 2 3 4 5 6 7 8 = Done (5, tinyhook_shutdown hooked_state)"
proof -
  have sd: "tinyhook_shutdown hooked_state =
     hooked_state\<lparr>g_tinyhook_enabled := False, g_module := None, g_pre_syscall_hooks := None,
       g_post_syscall_hooks := None, py_initialized := False,
       released := [DECREF_pre_hooks, DECREF_post_hooks, DECREF_module, Finalize_runtime]\<rparr>"
    by (simp add: tinyhook_shutdown_def hooked_state_def Py_XDECREF_def Py_Finalize_def)
  have en: "tinyhook_enabled hooked_state"
    by (simp add: tinyhook_enabled_def hooked_state_def)
  have rel: "released (tinyhook_shutdown hooked_state) =
      [DECREF_pre_hooks, DECREF_post_hooks, DECREF_module, Finalize_runtime]"
    unfolding sd by simp
  show ?thesis
    using shutdown_idempotent_then_inert [of hooked_state "call_returns (PyLong 3)" 59
        "1 :: 64 word" 2 3 4 5 6 7 8 stale_result 5]
      sd en rel
    by simp
qed

subsection \<open>A pre-hook that raises\<close>




subsection \<open>A pre-hook that skips the syscall\<close>

text \<open>
  On a call that succeeds (the hook returns the dictionary and no error is pending), the
  dispatch reports that a hook fired, with action SKIP, return value 42 and the eight
  original arguments.
\<close>

lemma pre_hook_skip_clean:
  assumes "g_tinyhook_enabled s" and "g_pre_syscall_hooks s = Some hooks"
    and "PyDict_GetItem hooks num = Some callback"
    and "pycall callback (build_call_args num [a1, a2, a3, a4, a5, a6, a7, a8]) s =
           (Inr (PyDict kvs), s1)"
    and "py_error s1 = None"
    and "map_of kvs (py_str ''action'') = Some (PyLong TINYHOOK_ACTION_SKIP)"
    and "map_of kvs (py_str ''ret'') = Some (PyLong 42)"
    and "map_of kvs (py_str ''args'') = None"
  shows "tinyhook_pre_syscall pycall s num a1 a2 a3 a4 a5 a6 a7 a8 r0 =
           Done (True,
                 \<lparr>action = TINYHOOK_SKIP, args = [a1, a2, a3, a4, a5, a6, a7, a8],
                  ret = (42 :: 'w::len word)\<rparr>,
                 s1)"
proof -
  have "(abi_long_of (PyLong 42) s1 :: 'w word \<times> state) = (42, s1)"
    by (simp add: abi_long_of_in_range in_long_long_def)
  with assms show ?thesis
    by (simp add: tinyhook_pre_syscall_def call_returns_clean parse_pre_result_def
        parse_action_def parse_args_def parse_ret_def PyLong_AsLong_def in_long_long_def
        TINYHOOK_ACTION_SKIP_def)
qed

text \<open>
  C4. The claim: for every syscall number with a registered pre-hook that returns
  \<open>{action: SKIP, ret: 42}\<close>, the dispatch reports that a hook fired, with action SKIP,
  return value 42 and the original arguments.
  The code does so when no error is pending, but it never clears the \<^verbatim>\<open>OverflowError\<close>
  that an out-of-range integer leaves behind in \<^verbatim>\<open>PyLong_AsLong\<close> or
  \<^verbatim>\<open>PyLong_AsLongLong\<close>. After a post-hook has returned \<open>2 ^ 63\<close>, the next call of the
  pre-hook fails inside the runtime although the hook returns the dictionary, and the
  dispatch reports that no hook fired, with action CONTINUE and return value 0. The same
  script on a state without a pending error gives SKIP and 42.
\<close>

theorem pre_hook_skip_after_overflow:
  "tinyhook_post_syscall skip_script hooked_state 59 5 1 2 3 4 5 6 7 8 =
     Done (- 1 :: 64 word, hooked_state\<lparr>py_error := Some OverflowError\<rparr>)
   \<and> tinyhook_pre_syscall skip_script (hooked_state\<lparr>py_error := Some OverflowError\<rparr>) 59
        1 2 3 4 5 6 7 (8 :: 64 word) stale_result =
     Done (False,
           \<lparr>action = TINYHOOK_CONTINUE, args = [1, 2, 3, 4, 5, 6, 7, 8], ret = 0\<rparr>,
           hooked_state\<lparr>stderr_out := [Log_pre_hook_error 59, Traceback SystemError]\<rparr>)
   \<and> tinyhook_pre_syscall skip_script hooked_state 59
        1 2 3 4 5 6 7 (8 :: 64 word) stale_result =
     Done (True,
           \<lparr>action = TINYHOOK_SKIP, args = [1, 2, 3, 4, 5, 6, 7, 8], ret = 42\<rparr>,
           hooked_state)"
proof (intro conjI)
  show "tinyhook_post_syscall skip_script hooked_state 59 5 1 2 3 4 5 6 7 8 =
     Done (- 1 :: 64 word, hooked_state\<lparr>py_error := Some OverflowError\<rparr>)"
    by (simp add: tinyhook_post_syscall_def hooked_state_fields PyDict_GetItem_def
        PyObject_CallFunction_def skip_script_def abi_long_of_overflow in_long_long_def)
next
  show "tinyhook_pre_syscall skip_script (hooked_state\<lparr>py_error := Some OverflowError\<rparr>) 59
        1 2 3 4 5 6 7 (8 :: 64 word) stale_result =
     Done (False,
           \<lparr>action = TINYHOOK_CONTINUE, args = [1, 2, 3, 4, 5, 6, 7, 8], ret = 0\<rparr>,
           hooked_state\<lparr>stderr_out := [Log_pre_hook_error 59, Traceback SystemError]\<rparr>)"
    by (simp add: tinyhook_pre_syscall_def hooked_state_def PyDict_GetItem_def
        PyObject_CallFunction_def skip_script_def PyErr_Print_def fprintf_stderr_def)
next
  show "tinyhook_pre_syscall skip_script hooked_state 59
        1 2 3 4 5 6 7 (8 :: 64 word) stale_result =
     Done (True,
           \<lparr>action = TINYHOOK_SKIP, args = [1, 2, 3, 4, 5, 6, 7, 8], ret = 42\<rparr>,
           hooked_state)"
    by (rule pre_hook_skip_clean [where hooks = "[(59, PyFunction 0)]"
          and callback = "PyFunction 0"
          and kvs = "[(py_str ''action'', PyLong 1), (py_str ''ret'', PyLong 42)]"])
      (simp_all add: hooked_state_fields PyDict_GetItem_def skip_script_def skip_dict_def
        py_str_def TINYHOOK_ACTION_SKIP_def)
qed

subsection \<open>Post-syscall dispatch\<close>




subsection \<open>The \<open>args\<close> field of a pre-hook's dictionary\<close>

lemma args_parse_action: "args (fst (parse_action d r s)) = args r"
  by (simp add: parse_action_def split: option.splits)

lemma args_parse_ret: "args (fst (parse_ret d r s)) = args r"
  by (simp add: parse_ret_def split: option.splits)

lemma args_parse_pre_result:
  fixes r :: "'w::len word TinyHookResult"
  shows "args (fst (parse_pre_result (PyDict kvs) r s)) =
     (case map_of kvs (py_str ''args'') of
        None \<Rightarrow> args r
      | Some tup \<Rightarrow>
          if PyTuple_Check tup \<and> PyTuple_Size tup = 8
          then fst (store_args tup 0 (args r) (snd (parse_action (PyDict kvs) r s)))
          else args r)"
proof -
  obtain r1 s1 where a: "parse_action (PyDict kvs) r s = (r1, s1)"
    by (cases "parse_action (PyDict kvs) r s")
  obtain r2 s2 where b: "parse_args (PyDict kvs) r1 s1 = (r2, s2)"
    by (cases "parse_args (PyDict kvs) r1 s1")
  have r1: "args r1 = args r"
    using args_parse_action [of "PyDict kvs" r s] a by simp
  have "args (fst (parse_pre_result (PyDict kvs) r s)) = args r2"
    using args_parse_ret [of "PyDict kvs" r2 s2] by (simp add: parse_pre_result_def a b)
  also have "args r2 = args (fst (parse_args (PyDict kvs) r1 s1))"
    using b by simp
  also have "\<dots> =
     (case map_of kvs (py_str ''args'') of
        None \<Rightarrow> args r
      | Some tup \<Rightarrow>
          if PyTuple_Check tup \<and> PyTuple_Size tup = 8
          then fst (store_args tup 0 (args r) s1)
          else args r)"
    by (simp add: parse_args_def r1 split: option.splits)
  finally show ?thesis using a by (simp split: option.splits)
qed

lemma eval_mixed:
  "store_args (PyTuple mixed_tuple) 0 [1, 2, 3, 4, 5, 6, 7, 8 :: 64 word] hooked_state =
     ([7, 2, 3, 4, 5, 6, 7, 8], hooked_state)"
  by (simp add: store_args.simps mixed_tuple_def abi_long_of_in_range in_long_long_def)

text \<open>
  C2, as stated, fails: a pre-hook returns a dictionary whose \<open>args\<close> is a tuple of eight
  elements of which only the first is an integer. The claim has all eight original
  arguments unchanged; the code replaces the first argument (1 becomes 7) and keeps the
  other seven.
\<close>

theorem pre_hook_mixed_tuple_changes_args:
  "PyDict_Check mixed_args_dict
   \<and> PyDict_GetItemString mixed_args_dict ''args'' = Some (PyTuple mixed_tuple)
   \<and> \<not> list_all PyLong_Check mixed_tuple
   \<and> tinyhook_pre_syscall (call_returns mixed_args_dict) hooked_state 59
        1 2 3 4 5 6 7 8 stale_result =
       Done (True, \<lparr>action = TINYHOOK_CONTINUE, args = [7, 2, 3, 4, 5, 6, 7, 8], ret = 0\<rparr>,
             hooked_state)
   \<and> [7, 2, 3, 4, 5, 6, 7, 8] \<noteq> [1, 2, 3, 4, 5, 6, 7, 8 :: 64 word]"
proof -
  have call: "PyObject_CallFunction (call_returns mixed_args_dict) (PyFunction 0)
      (build_call_args 59 [1, 2, 3, 4, 5, 6, 7, 8 :: 64 word]) hooked_state =
      (Some mixed_args_dict, hooked_state)"
    by (simp add: PyObject_CallFunction_def call_returns_def hooked_state_fields)
  have len: "length mixed_tuple = 8" by (simp add: mixed_tuple_def)
  have parse: "parse_pre_result mixed_args_dict
      \<lparr>action = TINYHOOK_CONTINUE, args = [1, 2, 3, 4, 5, 6, 7, 8 :: 64 word], ret = 0\<rparr>
      hooked_state =
      (\<lparr>action = TINYHOOK_CONTINUE, args = [7, 2, 3, 4, 5, 6, 7, 8], ret = 0\<rparr>, hooked_state)"
    by (simp add: parse_pre_result_def parse_action_def parse_args_def parse_ret_def
        mixed_args_dict_def py_str_def eval_mixed len)
  have run: "tinyhook_pre_syscall (call_returns mixed_args_dict) hooked_state 59
        1 2 3 4 5 6 7 8 stale_result =
       Done (True, \<lparr>action = TINYHOOK_CONTINUE, args = [7, 2, 3, 4, 5, 6, 7, 8], ret = 0\<rparr>,
             hooked_state)"
    by (simp add: tinyhook_pre_syscall_def hooked_state_fields PyDict_GetItem_def call parse)
  show ?thesis
    using run by (simp add: mixed_args_dict_def mixed_tuple_def py_str_def)
qed

text \<open>
  C2, amended. For every dictionary that a call of a pre-hook returns (the call
  succeeds: no error is pending when the hook returns), the \<open>args\<close> field takes effect
  only when it is a tuple of exactly eight elements, and then element by element: each
  element that is an integer fitting a signed 64-bit \<^verbatim>\<open>long long\<close> replaces the
  corresponding argument (converted to \<^verbatim>\<open>abi_long\<close>), and each element that is not an
  integer leaves its argument unchanged. When \<open>args\<close> is absent, is not a tuple, or has
  another length, all eight original arguments are left unchanged.
\<close>

theorem pre_hook_args_field:
  assumes "g_tinyhook_enabled s" and "g_pre_syscall_hooks s = Some hooks"
    and "PyDict_GetItem hooks num = Some callback"
    and "pycall callback (build_call_args num [a1, a2, a3, a4, a5, a6, a7, a8]) s =
           (Inr (PyDict kvs), s1)"
    and "py_error s1 = None"
  shows "\<exists>res s2.
          tinyhook_pre_syscall pycall s num a1 a2 a3 a4 a5 a6 a7 a8 r0 = Done (True, res, s2)
        \<and> (\<forall>xs. map_of kvs (py_str ''args'') = Some (PyTuple xs) \<and> length xs = 8 \<longrightarrow>
            length (args res) = 8
            \<and> (\<forall>i<8. (PyLong_Check (xs ! i) \<and> in_long_long (int_of (xs ! i)) \<longrightarrow>
                         args res ! i = (word_of_int (int_of (xs ! i)) :: 'w::len word))
                     \<and> (\<not> PyLong_Check (xs ! i) \<longrightarrow>
                         args res ! i = [a1, a2, a3, a4, a5, a6, a7, a8] ! i)))
        \<and> (map_of kvs (py_str ''args'') = None
            \<or> (\<exists>v. map_of kvs (py_str ''args'') = Some v
                    \<and> (\<not> PyTuple_Check v \<or> PyTuple_Size v \<noteq> 8))
          \<longrightarrow> args res = [a1, a2, a3, a4, a5, a6, a7, a8])"
proof -
  let ?orig = "[a1, a2, a3, a4, a5, a6, a7, a8]"
  let ?d = "\<lparr>action = TINYHOOK_CONTINUE, args = ?orig, ret = 0\<rparr>"
  obtain res s2 where p: "parse_pre_result (PyDict kvs) ?d s1 = (res, s2)"
    by (cases "parse_pre_result (PyDict kvs) ?d s1")
  have run: "tinyhook_pre_syscall pycall s num a1 a2 a3 a4 a5 a6 a7 a8 r0 = Done (True, res, s2)"
    using assms p by (simp add: tinyhook_pre_syscall_def call_returns_clean)
  let ?sa = "snd (parse_action (PyDict kvs) ?d s1)"
  have res: "args res =
     (case map_of kvs (py_str ''args'') of
        None \<Rightarrow> ?orig
      | Some tup \<Rightarrow>
          if PyTuple_Check tup \<and> PyTuple_Size tup = 8 then fst (store_args tup 0 ?orig ?sa)
          else ?orig)"
    using args_parse_pre_result [of kvs ?d s1] p by (simp split: option.splits)
  have tuple: "length (args res) = 8
            \<and> (\<forall>i<8. (PyLong_Check (xs ! i) \<and> in_long_long (int_of (xs ! i)) \<longrightarrow>
                         args res ! i = word_of_int (int_of (xs ! i)))
                     \<and> (\<not> PyLong_Check (xs ! i) \<longrightarrow> args res ! i = ?orig ! i))"
    if "map_of kvs (py_str ''args'') = Some (PyTuple xs)" and "length xs = 8" for xs
  proof -
    from that have eq: "args res = fst (store_args (PyTuple xs) 0 ?orig ?sa)"
      by (simp add: res)
    have "fst (store_args (PyTuple xs) 0 ?orig ?sa) ! i =
            (if PyLong_Check (xs ! i) then fst (abi_long_of (xs ! i) s1 :: 'w word \<times> state)
             else ?orig ! i)"
      if "i < 8" for i
      using that \<open>length xs = 8\<close> by (subst store_args_nth [where ?s0.0 = s1]) simp_all
    then show ?thesis
      unfolding eq by (simp add: store_args_length abi_long_of_in_range)
  qed
  have other: "args res = ?orig"
    if "map_of kvs (py_str ''args'') = None
            \<or> (\<exists>v. map_of kvs (py_str ''args'') = Some v
                    \<and> (\<not> PyTuple_Check v \<or> PyTuple_Size v \<noteq> 8))"
    using that by (auto simp: res)
  from run tuple other show ?thesis by blast
qed

theorem pre_hook_args_field_witness:
  "(\<exists>res s2. tinyhook_pre_syscall (call_returns int_args_dict) hooked_state 59
        1 2 3 4 5 6 7 (8 :: 64 word) stale_result = Done (True, res, s2)
      \<and> length (args res) = 8 \<and> args res ! 0 = 11 \<and> args res ! 7 = 18)
   \<and> (\<exists>res s2. tinyhook_pre_syscall (call_returns mixed_args_dict) hooked_state 59
        1 2 3 4 5 6 7 (8 :: 64 word) stale_result = Done (True, res, s2)
      \<and> args res ! 0 = 7 \<and> args res ! 1 = 2)
   \<and> (\<exists>res s2. tinyhook_pre_syscall (call_returns short_args_dict) hooked_state 59
        1 2 3 4 5 6 7 (8 :: 64 word) stale_result = Done (True, res, s2)
      \<and> args res = [1, 2, 3, 4, 5, 6, 7, 8])"
proof -
  have inst: "\<exists>res s2.
          tinyhook_pre_syscall (call_returns (PyDict d)) hooked_state 59
            1 2 3 4 5 6 7 (8 :: 64 word) stale_result = Done (True, res, s2)
        \<and> (\<forall>xs. map_of d (py_str ''args'') = Some (PyTuple xs) \<and> length xs = 8 \<longrightarrow>
            length (args res) = 8
            \<and> (\<forall>i<8. (PyLong_Check (xs ! i) \<and> in_long_long (int_of (xs ! i)) \<longrightarrow>
                         args res ! i = word_of_int (int_of (xs ! i)))
                     \<and> (\<not> PyLong_Check (xs ! i) \<longrightarrow>
                         args res ! i = [1, 2, 3, 4, 5, 6, 7, 8] ! i)))
        \<and> (map_of d (py_str ''args'') = None
            \<or> (\<exists>v. map_of d (py_str ''args'') = Some v
                    \<and> (\<not> PyTuple_Check v \<or> PyTuple_Size v \<noteq> 8))
          \<longrightarrow> args res = [1, 2, 3, 4, 5, 6, 7, 8])" for d
    by (rule pre_hook_args_field [where s = hooked_state and hooks = "[(59, PyFunction 0)]"
          and callback = "PyFunction 0" and pycall = "call_returns (PyDict d)"
          and ?s1.0 = hooked_state])
      (simp_all add: hooked_state_fields call_returns_def PyDict_GetItem_def)
  have len: "length int_tuple = 8" "length mixed_tuple = 8"
    by (simp_all add: int_tuple_def mixed_tuple_def)
  from inst [of "[(py_str ''args'', PyTuple int_tuple)]"] len
  obtain res s2 where ints:
    "tinyhook_pre_syscall (call_returns int_args_dict) hooked_state 59
        1 2 3 4 5 6 7 (8 :: 64 word) stale_result = Done (True, res, s2)"
    "length (args res) = 8"
    "\<And>i. i < 8 \<Longrightarrow> PyLong_Check (int_tuple ! i) \<Longrightarrow> in_long_long (int_of (int_tuple ! i)) \<Longrightarrow>
        args res ! i = word_of_int (int_of (int_tuple ! i))"
    by (auto simp: int_args_dict_def)
  from ints(3) [of 0] ints(3) [of 7]
  have "args res ! 0 = 11" "args res ! 7 = 18"
    by (simp_all add: int_tuple_def in_long_long_def)
  with ints have c1: "\<exists>res s2. tinyhook_pre_syscall (call_returns int_args_dict) hooked_state 59
        1 2 3 4 5 6 7 (8 :: 64 word) stale_result = Done (True, res, s2)
      \<and> length (args res) = 8 \<and> args res ! 0 = 11 \<and> args res ! 7 = 18"
    by blast
  from inst [of "[(py_str ''args'', PyTuple mixed_tuple)]"] len
  obtain res' s2' where mixed:
    "tinyhook_pre_syscall (call_returns mixed_args_dict) hooked_state 59
        1 2 3 4 5 6 7 (8 :: 64 word) stale_result = Done (True, res', s2')"
    "\<And>i. i < 8 \<Longrightarrow> PyLong_Check (mixed_tuple ! i) \<Longrightarrow> in_long_long (int_of (mixed_tuple ! i)) \<Longrightarrow>
        args res' ! i = word_of_int (int_of (mixed_tuple ! i))"
    "\<And>i. i < 8 \<Longrightarrow> \<not> PyLong_Check (mixed_tuple ! i) \<Longrightarrow>
        args res' ! i = [1, 2, 3, 4, 5, 6, 7, 8] ! i"
    by (auto simp: mixed_args_dict_def)
  from mixed(2) [of 0] mixed(3) [of 1]
  have "args res' ! 0 = 7" "args res' ! 1 = 2"
    by (simp_all add: mixed_tuple_def in_long_long_def)
  with mixed(1) have c2: "\<exists>res s2. tinyhook_pre_syscall (call_returns mixed_args_dict)
        hooked_state 59 1 2 3 4 5 6 7 (8 :: 64 word) stale_result = Done (True, res, s2)
      \<and> args res ! 0 = 7 \<and> args res ! 1 = 2"
    by blast
  from inst [of "[(py_str ''args'', PyTuple [PyLong 11, PyLong 12])]"]
  have c3: "\<exists>res s2. tinyhook_pre_syscall (call_returns short_args_dict) hooked_state 59
        1 2 3 4 5 6 7 (8 :: 64 word) stale_result = Done (True, res, s2)
      \<and> args res = [1, 2, 3, 4, 5, 6, 7, 8]"
    by (auto simp: short_args_dict_def)
  from c1 c2 c3 show ?thesis by blast
qed

subsection \<open>Registration\<close>

lemma filter_key_absent:
  "k \<notin> fst ` set d \<Longrightarrow> filter (\<lambda>kv. fst kv = k) d = []"
  by (induction d) auto

lemma one_entry_after_update:
  "distinct (map fst d) \<Longrightarrow> length (filter (\<lambda>kv. fst kv = k) (AList.update k v d)) = 1"
proof (induction d)
  case Nil
  then show ?case by simp
next
  case (Cons p ps)
  show ?case
  proof (cases "fst p = k")
    case True
    with Cons.prems have "k \<notin> fst ` set ps" by auto
    then have "filter (\<lambda>kv. fst kv = k) ps = []" by (rule filter_key_absent)
    with True show ?thesis by simp
  next
    case False
    with Cons show ?thesis by simp
  qed
qed

text \<open>
  C9. For either hook kind and every syscall number (a C \<^verbatim>\<open>int\<close>), registering a
  callable and then another callable for the same number replaces the entry: both calls
  succeed, the lookup then yields the second callable, and the table (whose keys were
  distinct before) holds exactly one entry for the number.
\<close>

theorem register_twice_replaces:
  assumes "table kind s = Some d" and "distinct (map fst d)"
    and "arg_i a = Inr num" and "PyCallable_Check c1" and "PyCallable_Check c2"
  shows "fst (register kind [a, c1] s) = Return PyNone
       \<and> fst (register kind [a, c2] (snd (register kind [a, c1] s))) = Return PyNone
       \<and> lookup kind num (snd (register kind [a, c1] s)) = Some c1
       \<and> lookup kind num (snd (register kind [a, c2] (snd (register kind [a, c1] s)))) = Some c2
       \<and> entries_for kind num (snd (register kind [a, c2] (snd (register kind [a, c1] s)))) = 1"
proof (cases kind)
  case Pre
  with assms show ?thesis
    by (simp add: register_def table_def lookup_def entries_for_def py_register_pre_hook_def
        PyDict_SetItem_def PyDict_GetItem_def update_conv' one_entry_after_update)
next
  case Post
  with assms show ?thesis
    by (simp add: register_def table_def lookup_def entries_for_def py_register_post_hook_def
        PyDict_SetItem_def PyDict_GetItem_def update_conv' one_entry_after_update)
qed

theorem register_twice_replaces_witness:
  "snd (register Pre [PyLong 59, PyFunction 8]
          (snd (register Pre [PyLong 59, PyFunction 7] hooked_state)))
     = hooked_state\<lparr>g_pre_syscall_hooks := Some [(59, PyFunction 8)]\<rparr>
   \<and> lookup Pre 59 (snd (register Pre [PyLong 59, PyFunction 8]
        (snd (register Pre [PyLong 59, PyFunction 7] hooked_state)))) = Some (PyFunction 8)
   \<and> entries_for Pre 59 (snd (register Pre [PyLong 59, PyFunction 8]
        (snd (register Pre [PyLong 59, PyFunction 7] hooked_state)))) = 1
   \<and> lookup Post 59 (snd (register Post [PyLong 59, PyFunction 8]
        (snd (register Post [PyLong 59, PyFunction 7] unhooked_state)))) = Some (PyFunction 8)
   \<and> entries_for Post 59 (snd (register Post [PyLong 59, PyFunction 8]
        (snd (register Post [PyLong 59, PyFunction 7] unhooked_state)))) = 1"
proof -
  have e: "snd (register Pre [PyLong 59, PyFunction 8]
                  (snd (register Pre [PyLong 59, PyFunction 7] hooked_state)))
     = hooked_state\<lparr>g_pre_syscall_hooks := Some [(59, PyFunction 8)]\<rparr>"
    by (simp add: register_def py_register_pre_hook_def arg_i_def hooked_state_def
        PyDict_SetItem_def)
  show ?thesis
    using register_twice_replaces [of Pre hooked_state "[(59, PyFunction 0)]" "PyLong 59" 59
        "PyFunction 7" "PyFunction 8"]
      register_twice_replaces [of Post unhooked_state "[]" "PyLong 59" 59
        "PyFunction 7" "PyFunction 8"] e
    by (simp add: table_def hooked_state_def unhooked_state_def arg_i_def)
qed

subsection \<open>Memory bridge\<close>

lemma read_bytes_Some:
  "read_bytes mem p n = Some bs \<Longrightarrow>
     length bs = n \<and> (\<forall>i<n. mem (p + i) = Some (bs ! i))"
proof (induction n arbitrary: p bs)
  case 0
  then show ?case by simp
next
  case (Suc n)
  from Suc.prems obtain b bs' where b: "mem p = Some b"
    and r: "read_bytes mem (Suc p) n = Some bs'" and bs: "bs = b # bs'"
    by (auto split: option.splits)
  from Suc.IH [OF r] have len: "length bs' = n"
    and nth: "\<And>i. i < n \<Longrightarrow> mem (Suc p + i) = Some (bs' ! i)" by auto
  show ?case
  proof (intro conjI allI impI)
    show "length bs = Suc n" using bs len by simp
  next
    fix i assume "i < Suc n"
    then show "mem (p + i) = Some (bs ! i)"
      using b bs nth [of "i - 1"] by (cases i) auto
  qed
qed

lemma strlen_scan_step:
  "n \<le> 2147483647 \<Longrightarrow> g2h (addr + word_of_nat n) = Some p \<Longrightarrow> mem p = Some b \<Longrightarrow>
   strlen_scan g2h mem addr n = (if b = 0 then int n else strlen_scan g2h mem addr (Suc n))"
  by (subst strlen_scan.simps) simp

lemma hi_memory_at:
  "hi_memory 0 = Some 104" "hi_memory (Suc 0) = Some 105" "hi_memory (Suc (Suc 0)) = Some 0"
  "hi_memory (Suc (Suc (Suc 0))) = None"
  by (simp_all add: hi_memory_def)

lemma latin1_memory_at:
  "latin1_memory 0 = Some 255" "latin1_memory (Suc 0) = Some 0"
  by (simp_all add: latin1_memory_def)

lemma low_g2h_at:
  "low_g2h 0 = Some 0" "low_g2h 1 = Some (Suc 0)" "low_g2h 2 = Some (Suc (Suc 0))"
  "low_g2h 3 = Some (Suc (Suc (Suc 0)))" "low_g2h 4096 = None"
  by (simp_all add: low_g2h_def)

lemma host_memory_hi_state: "host_memory hi_state = hi_memory"
  by (simp add: hi_state_def)

lemma host_memory_latin1_state: "host_memory latin1_state = latin1_memory"
  by (simp add: latin1_state_def)

lemma scan_hi: "target_strlen low_g2h hi_memory 0 = 2"
proof -
  have a2: "strlen_scan low_g2h hi_memory 0 (Suc (Suc 0)) = 2"
    by (subst strlen_scan_step [where p = "Suc (Suc 0)" and b = 0])
      (simp_all add: low_g2h_at hi_memory_at)
  have a1: "strlen_scan low_g2h hi_memory 0 (Suc 0) = 2"
    by (subst strlen_scan_step [where p = "Suc 0" and b = 105])
      (simp_all add: low_g2h_at hi_memory_at a2)
  have a0: "strlen_scan low_g2h hi_memory 0 0 = 2"
    by (subst strlen_scan_step [where p = 0 and b = 104])
      (simp_all add: low_g2h_at hi_memory_at a1)
  then show ?thesis by (simp add: target_strlen_def)
qed

lemma scan_latin1: "target_strlen low_g2h latin1_memory 0 = 1"
proof -
  have a1: "strlen_scan low_g2h latin1_memory 0 (Suc 0) = 1"
    by (subst strlen_scan_step [where p = "Suc 0" and b = 0])
      (simp_all add: low_g2h_at latin1_memory_at)
  have a0: "strlen_scan low_g2h latin1_memory 0 0 = 1"
    by (subst strlen_scan_step [where p = 0 and b = 255])
      (simp_all add: low_g2h_at latin1_memory_at a1)
  then show ?thesis by (simp add: target_strlen_def)
qed

lemma read_hi: "py_read_string low_g2h [PyLong 0] hi_state = Return (py_str ''hi'')"
proof -
  have rb: "read_bytes hi_memory 0 (nat 2) = Some [104, 105]"
    by (simp add: hi_memory_at numeral_2_eq_2)
  have dec: "utf8_decode (map unat [104, 105 :: 8 word]) = Some [104, 105]"
    by simp
  have "PyUnicode_FromStringAndSize hi_memory 0 (nat 2) = Return (py_str ''hi'')"
    unfolding PyUnicode_FromStringAndSize_def rb by (simp add: py_str_def)
  then show ?thesis
    by (simp add: py_read_string_def arg_K_def low_g2h_at host_memory_hi_state scan_hi)
qed

lemma read_latin1: "py_read_string low_g2h [PyLong 0] latin1_state = Raise UnicodeDecodeError"
proof -
  have rb: "read_bytes latin1_memory 0 (nat 1) = Some [255]"
    by (simp add: latin1_memory_at)
  have "PyUnicode_FromStringAndSize latin1_memory 0 (nat 1) = Raise UnicodeDecodeError"
    unfolding PyUnicode_FromStringAndSize_def rb by simp
  then show ?thesis
    by (simp add: py_read_string_def arg_K_def low_g2h_at host_memory_latin1_state
        scan_latin1)
qed

lemma scan_unterminated: "target_strlen low_g2h hi_memory 3 = - 14"
  unfolding target_strlen_def
  by (subst strlen_scan.simps) (simp add: low_g2h_at hi_memory_at TARGET_EFAULT_def)

lemma strlen_scan_found:
  "strlen_scan g2h mem addr k = int n \<Longrightarrow>
     k \<le> n
     \<and> (\<exists>p. g2h (addr + word_of_nat n) = Some p \<and> mem p = Some 0)
     \<and> (\<forall>i. k \<le> i \<and> i < n \<longrightarrow>
            (\<exists>p b. g2h (addr + word_of_nat i) = Some p \<and> mem p = Some b \<and> b \<noteq> 0))"
proof (induction g2h mem addr k rule: strlen_scan.induct)
  case (1 g2h mem addr k)
  from "1.prems" have bound: "\<not> 2147483647 < k"
    by (subst (asm) strlen_scan.simps) (simp add: TARGET_EFAULT_def split: if_splits)
  from "1.prems" bound obtain p where p: "g2h (addr + word_of_nat k) = Some p"
    by (subst (asm) strlen_scan.simps) (simp add: TARGET_EFAULT_def split: option.splits)
  from "1.prems" bound p obtain b where b: "mem p = Some b"
    by (subst (asm) strlen_scan.simps) (simp add: TARGET_EFAULT_def split: option.splits)
  show ?case
  proof (cases "b = 0")
    case True
    with "1.prems" bound p b have "n = k"
      by (subst (asm) strlen_scan.simps) simp
    with True p b show ?thesis by auto
  next
    case False
    with "1.prems" bound p b have step: "strlen_scan g2h mem addr (k + 1) = int n"
      by (subst (asm) strlen_scan.simps) simp
    from "1.IH" [OF bound p b False step]
    have le: "k + 1 \<le> n"
      and zero: "\<exists>p. g2h (addr + word_of_nat n) = Some p \<and> mem p = Some 0"
      and rest: "\<And>i. k + 1 \<le> i \<Longrightarrow> i < n \<Longrightarrow>
            \<exists>p b. g2h (addr + word_of_nat i) = Some p \<and> mem p = Some b \<and> b \<noteq> 0"
      by auto
    have "\<exists>p b. g2h (addr + word_of_nat i) = Some p \<and> mem p = Some b \<and> b \<noteq> 0"
      if "k \<le> i" and "i < n" for i
    proof (cases "i = k")
      case True
      with p b False show ?thesis by auto
    next
      case False
      with that rest [of i] show ?thesis by simp
    qed
    with le zero show ?thesis by auto
  qed
qed

text \<open>
  C6, as stated, fails: guest address 1 is mapped and the size 3 is positive, but only
  two bytes are readable from the translated address. The claim has the call return
  exactly 3 bytes; the code detects nothing and reads past the readable memory, which is
  a fault of the host process, neither an error for the script nor a byte sequence.
\<close>

theorem read_memory_overrun_faults:
  "low_g2h 1 = Some 1
   \<and> hi_memory 1 = Some 105
   \<and> py_read_memory low_g2h [PyLong 1, PyLong 3] hi_state = Fault"
proof -
  have rb: "read_bytes hi_memory (Suc 0) (nat 3) = None"
    by (simp add: hi_memory_at numeral_3_eq_3)
  have "PyBytes_FromStringAndSize hi_memory (Suc 0) (nat 3) = Fault"
    unfolding PyBytes_FromStringAndSize_def rb by simp
  then show ?thesis
    by (simp add: py_read_memory_def arg_K_def arg_n_def in_long_long_def low_g2h_at
        host_memory_hi_state hi_memory_at)
qed

text \<open>
  C6, amended. \<^verbatim>\<open>read_memory(addr, size)\<close> fails with InvalidArgument for every
  \<open>size \<le> 0\<close> (\<^verbatim>\<open>ValueError\<close> when the arguments parse, which covers 0 and -1); it fails with
  AddressError (\<^verbatim>\<open>MemoryError\<close>) when \<open>addr\<close> has no mapping; and otherwise, provided
  the \<open>size\<close> bytes from the translated address are all readable host memory, it returns
  a bytes object of exactly \<open>size\<close> bytes, which are the bytes found there.
\<close>

theorem read_memory_contract:
  "(sz \<le> 0 \<longrightarrow>
      (\<exists>e. py_read_memory g2h [a, PyLong sz] s = Raise e \<and> error_class_of e = InvalidArgument))
   \<and> (PyLong_Check a \<and> in_long_long sz \<and> sz \<le> 0 \<longrightarrow>
      py_read_memory g2h [a, PyLong sz] s = Raise ValueError)
   \<and> (PyLong_Check a \<and> in_long_long sz \<and> 0 < sz \<and> g2h (word_of_int (int_of a)) = None \<longrightarrow>
      py_read_memory g2h [a, PyLong sz] s = Raise MemoryError
      \<and> error_class_of MemoryError = AddressError)
   \<and> (PyLong_Check a \<and> in_long_long sz \<and> 0 < sz \<and> g2h (word_of_int (int_of a)) = Some p
        \<and> read_bytes (host_memory s) p (nat sz) = Some bs \<longrightarrow>
      py_read_memory g2h [a, PyLong sz] s = Return (PyBytes bs)
      \<and> int (length bs) = sz
      \<and> (\<forall>i<length bs. host_memory s (p + i) = Some (bs ! i)))"
proof (intro conjI impI)
  assume "sz \<le> 0"
  then show "\<exists>e. py_read_memory g2h [a, PyLong sz] s = Raise e
      \<and> error_class_of e = InvalidArgument"
    by (simp add: py_read_memory_def arg_K_def arg_n_def)
next
  assume "PyLong_Check a \<and> in_long_long sz \<and> sz \<le> 0"
  then show "py_read_memory g2h [a, PyLong sz] s = Raise ValueError"
    by (simp add: py_read_memory_def arg_K_def arg_n_def)
next
  assume "PyLong_Check a \<and> in_long_long sz \<and> 0 < sz \<and> g2h (word_of_int (int_of a)) = None"
  then show "py_read_memory g2h [a, PyLong sz] s = Raise MemoryError"
    by (simp add: py_read_memory_def arg_K_def arg_n_def)
next
  show "error_class_of MemoryError = AddressError" by simp
next
  assume h: "PyLong_Check a \<and> in_long_long sz \<and> 0 < sz
      \<and> g2h (word_of_int (int_of a)) = Some p
      \<and> read_bytes (host_memory s) p (nat sz) = Some bs"
  then show "py_read_memory g2h [a, PyLong sz] s = Return (PyBytes bs)"
    by (simp add: py_read_memory_def arg_K_def arg_n_def PyBytes_FromStringAndSize_def)
  from h have rb: "read_bytes (host_memory s) p (nat sz) = Some bs" by simp
  from read_bytes_Some [OF rb] h show "int (length bs) = sz" by simp
  from read_bytes_Some [OF rb] show "\<forall>i<length bs. host_memory s (p + i) = Some (bs ! i)"
    by simp
qed

theorem read_memory_contract_witness:
  "py_read_memory low_g2h [PyLong 0, PyLong 0] hi_state = Raise ValueError
   \<and> py_read_memory low_g2h [PyLong 0, PyLong (- 1)] hi_state = Raise ValueError
   \<and> py_read_memory low_g2h [PyLong 4096, PyLong 2] hi_state = Raise MemoryError
   \<and> py_read_memory low_g2h [PyLong 0, PyLong 2] hi_state = Return (PyBytes [104, 105])"
proof -
  have rb: "read_bytes (host_memory hi_state) 0 (nat 2) = Some [104, 105]"
    by (simp add: host_memory_hi_state hi_memory_at numeral_2_eq_2)
  show ?thesis
    using read_memory_contract [of 0 low_g2h "PyLong 0" hi_state 0 "[]"]
      read_memory_contract [of "- 1" low_g2h "PyLong 0" hi_state 0 "[]"]
      read_memory_contract [of 2 low_g2h "PyLong 4096" hi_state 0 "[]"]
      read_memory_contract [of 2 low_g2h "PyLong 0" hi_state 0 "[104, 105]"] rb
    by (simp add: low_g2h_def in_long_long_def)
qed

text \<open>
  C7, as stated, fails: the start address is mapped and the scan finds the terminator
  after one byte, but that byte, \<open>0xFF\<close>, is not valid UTF-8. The call returns no text
  and does not fail with AddressError; it raises \<^verbatim>\<open>UnicodeDecodeError\<close>.
\<close>

theorem read_string_not_utf8_raises:
  "low_g2h 0 = Some 0
   \<and> target_strlen low_g2h (host_memory latin1_state) 0 = 1
   \<and> py_read_string low_g2h [PyLong 0] latin1_state = Raise UnicodeDecodeError
   \<and> error_class_of UnicodeDecodeError \<noteq> AddressError"
  by (simp add: low_g2h_at read_latin1 scan_latin1 host_memory_latin1_state)

text \<open>
  C7, amended. \<^verbatim>\<open>read_string(addr)\<close> fails with AddressError (\<^verbatim>\<open>MemoryError\<close>) when the
  start address is unmapped or the terminator scan is invalid (negative). Otherwise it
  decodes exactly the discovered number of bytes at the translated address: when they
  are readable and valid UTF-8 it returns their text, and when they are not valid UTF-8
  it raises \<^verbatim>\<open>UnicodeDecodeError\<close>. The discovered length excludes the terminator: the
  scanned bytes before it are non-zero and the byte at the length is zero. A guest
  buffer holding \<open>"hi\0"\<close> yields the 2-character string \<open>"hi"\<close>.
\<close>

theorem read_string_contract:
  "(PyLong_Check a \<and> g2h (word_of_int (int_of a)) = None \<longrightarrow>
      py_read_string g2h [a] s = Raise MemoryError
      \<and> error_class_of MemoryError = AddressError)
   \<and> (PyLong_Check a \<and> g2h (word_of_int (int_of a)) = Some p
        \<and> target_strlen g2h (host_memory s) (word_of_int (int_of a)) < 0 \<longrightarrow>
      py_read_string g2h [a] s = Raise MemoryError)
   \<and> (PyLong_Check a \<and> g2h (word_of_int (int_of a)) = Some p
        \<and> target_strlen g2h (host_memory s) (word_of_int (int_of a)) = int n
        \<and> read_bytes (host_memory s) p n = Some bs
        \<and> utf8_decode (map unat bs) = Some cs \<longrightarrow>
      py_read_string g2h [a] s = Return (PyUnicode cs) \<and> length bs = n)
   \<and> (PyLong_Check a \<and> g2h (word_of_int (int_of a)) = Some p
        \<and> target_strlen g2h (host_memory s) (word_of_int (int_of a)) = int n
        \<and> read_bytes (host_memory s) p n = Some bs
        \<and> utf8_decode (map unat bs) = None \<longrightarrow>
      py_read_string g2h [a] s = Raise UnicodeDecodeError)
   \<and> (target_strlen g2h (host_memory s) addr = int n \<longrightarrow>
      (\<exists>q. g2h (addr + word_of_nat n) = Some q \<and> host_memory s q = Some 0)
      \<and> (\<forall>i<n. \<exists>q b. g2h (addr + word_of_nat i) = Some q \<and> host_memory s q = Some b
                  \<and> b \<noteq> 0))
   \<and> py_read_string low_g2h [PyLong 0] hi_state = Return (py_str ''hi'')"
proof (intro conjI impI)
  assume "PyLong_Check a \<and> g2h (word_of_int (int_of a)) = None"
  then show "py_read_string g2h [a] s = Raise MemoryError"
    by (simp add: py_read_string_def arg_K_def)
next
  show "error_class_of MemoryError = AddressError" by simp
next
  assume "PyLong_Check a \<and> g2h (word_of_int (int_of a)) = Some p
        \<and> target_strlen g2h (host_memory s) (word_of_int (int_of a)) < 0"
  then show "py_read_string g2h [a] s = Raise MemoryError"
    by (simp add: py_read_string_def arg_K_def)
next
  assume h: "PyLong_Check a \<and> g2h (word_of_int (int_of a)) = Some p
        \<and> target_strlen g2h (host_memory s) (word_of_int (int_of a)) = int n
        \<and> read_bytes (host_memory s) p n = Some bs
        \<and> utf8_decode (map unat bs) = Some cs"
  then show "py_read_string g2h [a] s = Return (PyUnicode cs)"
    by (simp add: py_read_string_def arg_K_def PyUnicode_FromStringAndSize_def)
  from h have "read_bytes (host_memory s) p n = Some bs" by simp
  from read_bytes_Some [OF this] show "length bs = n" by simp
next
  assume "PyLong_Check a \<and> g2h (word_of_int (int_of a)) = Some p
        \<and> target_strlen g2h (host_memory s) (word_of_int (int_of a)) = int n
        \<and> read_bytes (host_memory s) p n = Some bs
        \<and> utf8_decode (map unat bs) = None"
  then show "py_read_string g2h [a] s = Raise UnicodeDecodeError"
    by (simp add: py_read_string_def arg_K_def PyUnicode_FromStringAndSize_def)
next
  assume t: "target_strlen g2h (host_memory s) addr = int n"
  from strlen_scan_found [OF t [unfolded target_strlen_def]]
  show "\<exists>q. g2h (addr + word_of_nat n) = Some q \<and> host_memory s q = Some 0"
    and "\<forall>i<n. \<exists>q b. g2h (addr + word_of_nat i) = Some q \<and> host_memory s q = Some b \<and> b \<noteq> 0"
    by auto
next
  show "py_read_string low_g2h [PyLong 0] hi_state = Return (py_str ''hi'')"
    by (rule read_hi)
qed

theorem read_string_contract_witness:
  "py_read_string low_g2h [PyLong 4096] hi_state = Raise MemoryError
   \<and> py_read_string low_g2h [PyLong 3] hi_state = Raise MemoryError
   \<and> py_read_string low_g2h [PyLong 0] hi_state = Return (PyUnicode [104, 105])
   \<and> py_read_string low_g2h [PyLong 0] latin1_state = Raise UnicodeDecodeError
   \<and> hi_memory 2 = Some 0
   \<and> py_read_string low_g2h [PyLong 0] hi_state = Return (py_str ''hi'')"
proof -
  have rb: "read_bytes (host_memory hi_state) 0 2 = Some [104, 105]"
    by (simp add: host_memory_hi_state hi_memory_at numeral_2_eq_2)
  have rl: "read_bytes (host_memory latin1_state) 0 1 = Some [255]"
    by (simp add: host_memory_latin1_state latin1_memory_at)
  have sh: "target_strlen low_g2h (host_memory hi_state) 0 = int 2"
    by (simp add: host_memory_hi_state scan_hi)
  have sl: "target_strlen low_g2h (host_memory latin1_state) 0 = int 1"
    by (simp add: host_memory_latin1_state scan_latin1)
  have su: "target_strlen low_g2h (host_memory hi_state) 3 < 0"
    by (simp add: host_memory_hi_state scan_unterminated)
  have m: "hi_memory 2 = Some 0" by (simp add: hi_memory_def)
  show ?thesis
    using read_string_contract [of "PyLong 4096" low_g2h hi_state 0 0 "[]" "[]" 0]
      read_string_contract [of "PyLong 3" low_g2h hi_state 3 0 "[]" "[]" 0]
      read_string_contract [of "PyLong 0" low_g2h hi_state 0 2 "[104, 105]" "[104, 105]" 0]
      read_string_contract [of "PyLong 0" low_g2h latin1_state 0 1 "[255]" "[]" 0]
      rb rl sh sl su m
    by (simp add: low_g2h_at)
qed

text \<open>
  C10. \<^verbatim>\<open>write_memory\<close> accepts empty data at any mapped address: it validates no
  size, so \<^verbatim>\<open>write_memory(addr, b"")\<close> returns \<^verbatim>\<open>None\<close>, raises nothing, copies nothing
  and leaves the process, its memory included, as it was; \<^verbatim>\<open>read_memory\<close> with size 0 at
  the same address raises \<^verbatim>\<open>ValueError\<close>.
\<close>

theorem write_memory_empty_data:
  assumes "PyLong_Check a" and "g2h (word_of_int (int_of a)) = Some p"
  shows "py_write_memory g2h [a, PyBytes []] s = (Return PyNone, s)
       \<and> host_memory (snd (py_write_memory g2h [a, PyBytes []] s)) = host_memory s
       \<and> py_read_memory g2h [a, PyLong 0] s = Raise ValueError"
  using assms
  by (simp add: py_write_memory_def py_read_memory_def arg_K_def arg_n_def in_long_long_def)

theorem write_memory_empty_data_witness:
  "py_write_memory low_g2h [PyLong 2, PyBytes []] hi_state = (Return PyNone, hi_state)
   \<and> py_read_memory low_g2h [PyLong 2, PyLong 0] hi_state = Raise ValueError"
  using write_memory_empty_data [of "PyLong 2" low_g2h 2 hi_state]
  by (simp add: low_g2h_def)

end
